theory Spec2Isabelle
  imports Complex_Main
begin

section \<open>Data model (types of the API)\<close>

text \<open>
  The TypeScript interfaces \<^verbatim>\<open>Product\<close>, \<^verbatim>\<open>OrderItem\<close>, \<^verbatim>\<open>Order\<close>, \<^verbatim>\<open>Cart\<close>,
  \<^verbatim>\<open>CartItem\<close>, \<^verbatim>\<open>Payment\<close> and \<^verbatim>\<open>Database\<close> become records; a field declared
  with \<^verbatim>\<open>?\<close> is an \<open>option\<close>. Field names carry a prefix because record fields share
  one name space.

  Numbers: JavaScript has one numeric type, the IEEE 754 double. A price, weight,
  percentage or amount held in a record is a finite double, given by its exact rational
  value (\<open>rat\<close>); the arithmetic on them is the double arithmetic of the section on
  JavaScript numbers below, whose results may also be \<^verbatim>\<open>Infinity\<close>, \<^verbatim>\<open>-Infinity\<close> and
  \<^verbatim>\<open>NaN\<close>. Stock levels and quantities are integers (\<open>int\<close>); points in time are integer
  milliseconds.
\<close>

type_synonym time = int

datatype OrderStatus = pending | confirmed | processing | shipped | delivered | cancelled

datatype PaymentStatus = pay_pending | completed | refunded | failed

datatype PaymentMethod = credit_card | debit_card | paypal | bank_transfer

record Product =
  p_id :: string
  p_name :: string
  p_price :: rat
  p_categoryId :: string
  p_stock :: int
  p_description :: "string option"
  p_averageRating :: "rat option"
  p_reviewCount :: "int option"
  p_createdAt :: "time option"
  p_updatedAt :: "time option"

record Address =
  street :: string
  city :: string
  state :: "string option"
  zipCode :: string
  country :: "string option"

record OrderItem =
  productId :: string
  name :: "string option"
  price :: rat
  quantity :: int
  weight :: "rat option"
  discountPercent :: "rat option"

text \<open>
  The value of an arithmetic expression: a finite double, given by its exact rational
  value, or one of the three special values. The two zeros are not told apart: none of
  the functions modelled here divides by a variable or otherwise observes the sign of a
  zero.
\<close>

datatype number = Num rat | Infinity | NegInfinity | NaN

record OrderTotals =
  subtotal :: string
  tax :: string
  shipping :: string
  total :: string
  rawTotal :: number

record Order =
  o_id :: string
  o_userId :: string
  o_items :: "OrderItem list"
  o_shippingAddress :: Address
  o_shippingMethod :: "string option"
  o_status :: OrderStatus
  o_paymentStatus :: "string option"
  o_shippingStatus :: "string option"
  o_totals :: "OrderTotals option"
  o_createdAt :: "time option"
  o_confirmedAt :: "time option"
  o_processingAt :: "time option"
  o_shippedAt :: "time option"
  o_deliveredAt :: "time option"
  o_cancelledAt :: "time option"
  o_updatedAt :: "time option"

text \<open>\<^verbatim>\<open>Partial<Order>\<close>, the type of a request body: every field may be missing.\<close>

record OrderPartial =
  u_id :: "string option"
  u_userId :: "string option"
  u_items :: "OrderItem list option"
  u_shippingAddress :: "Address option"
  u_shippingMethod :: "string option"
  u_status :: "OrderStatus option"
  u_paymentStatus :: "string option"
  u_shippingStatus :: "string option"
  u_totals :: "OrderTotals option"
  u_createdAt :: "time option"
  u_confirmedAt :: "time option"
  u_processingAt :: "time option"
  u_shippedAt :: "time option"
  u_deliveredAt :: "time option"
  u_cancelledAt :: "time option"
  u_updatedAt :: "time option"

record CartItem =
  ci_productId :: string
  ci_name :: "string option"
  ci_price :: rat
  ci_quantity :: int
  ci_addedAt :: "time option"

record Cart =
  c_id :: string
  c_userId :: string
  c_items :: "CartItem list"
  c_createdAt :: "time option"
  c_updatedAt :: "time option"

record Payment =
  pay_id :: string
  pay_orderId :: string
  pay_method :: PaymentMethod
  pay_amount :: rat
  pay_formattedAmount :: "string option"
  pay_transactionId :: "string option"
  pay_cardNumber :: "string option"
  pay_status :: PaymentStatus
  pay_createdAt :: "time option"
  pay_updatedAt :: "time option"

text \<open>
  The collections of \<^verbatim>\<open>Database\<close> that the order, cart, payment and product routes
  read and write. Each is an ordered list, as in the source.
\<close>

record Database =
  products :: "Product list"
  orders :: "Order list"
  carts :: "Cart list"
  payments :: "Payment list"

text \<open>
  What a route handler sends: a success envelope with status code, message and payload,
  or an error envelope with status code and message. The envelope's metadata (time
  stamp, random request id) and the read-side enrichment of the payload are left out.
  An uncaught exception is a value of \<open>exn\<close>.
\<close>

datatype msg = Text string | ValidationErrors "(string \<times> string) list"

datatype 'a response = Reply nat string 'a | Failure nat msg

datatype exn = TypeError

section \<open>JavaScript numbers\<close>

text \<open>
  \<open>fl x\<close> is the double nearest to the real number \<open>x\<close>, a tie going to the double with
  an even significand (round to nearest, ties to even), as every arithmetic operation
  and every decimal literal of JavaScript delivers it. A double is an integer multiple
  of \<open>2 ^ (e - 52)\<close>, where \<open>e\<close> is the binary exponent of \<open>x\<close>, not below -1022 (below
  that the doubles are subnormal and equally spaced). A result that reaches \<open>2 ^ 1024\<close>
  in magnitude is an infinity.
\<close>

definition pow2 :: "int \<Rightarrow> rat" where
  "pow2 e = (if 0 \<le> e then 2 ^ nat e else 1 / 2 ^ nat (- e))"

text \<open>The number of binary digits of a positive integer.\<close>

function bits :: "int \<Rightarrow> int" where
  "bits n = (if n \<le> 0 then 0 else 1 + bits (n div 2))"
  by pat_completeness auto
termination
  by (relation "measure nat") auto

text \<open>The binary exponent of a positive rational \<open>a\<close>: \<open>2 ^ e \<le> a < 2 ^ (e + 1)\<close>.\<close>

definition exponent_of :: "rat \<Rightarrow> int" where
  "exponent_of a =
     (let (p, q) = quotient_of a;
          d = bits p - bits q
      in if pow2 d \<le> a then d else d - 1)"

definition round_half_even :: "rat \<Rightarrow> int" where
  "round_half_even m =
     (let f = \<lfloor>m\<rfloor>; r = m - rat_of_int f
      in if r < 1 / 2 then f
         else if 1 / 2 < r then f + 1
         else if even f then f else f + 1)"

definition fl :: "rat \<Rightarrow> number" where
  "fl x =
     (if x = 0 then Num 0
      else
        let e = max (exponent_of \<bar>x\<bar>) (- 1022);
            q = pow2 (e - 52);
            n = round_half_even (x / q)
        in if 1023 < e \<or> (e = 1023 \<and> \<bar>n\<bar> = 9007199254740992)
           then (if 0 < x then Infinity else NegInfinity)
           else Num (rat_of_int n * q))"

text \<open>A rational is a double when rounding leaves it as it is.\<close>

definition is_double :: "rat \<Rightarrow> bool" where
  "is_double r = (fl r = Num r)"

text \<open>A decimal literal of the source text, and an integer read from a request.\<close>

definition lit :: "rat \<Rightarrow> number" where
  "lit r = fl r"

definition number_of_int :: "int \<Rightarrow> number" where
  "number_of_int k = fl (rat_of_int k)"

text \<open>
  The operators \<^verbatim>\<open>+\<close>, \<^verbatim>\<open>-\<close>, \<^verbatim>\<open>*\<close> and \<^verbatim>\<open>/\<close> on numbers: the exact result rounded
  by \<open>fl\<close>, with the IEEE rules for infinities and \<^verbatim>\<open>NaN\<close>.
\<close>

fun js_add :: "number \<Rightarrow> number \<Rightarrow> number" where
  "js_add (Num x) (Num y) = fl (x + y)"
| "js_add NaN b = NaN"
| "js_add a NaN = NaN"
| "js_add Infinity NegInfinity = NaN"
| "js_add NegInfinity Infinity = NaN"
| "js_add Infinity b = Infinity"
| "js_add NegInfinity b = NegInfinity"
| "js_add (Num x) b = b"

fun js_neg :: "number \<Rightarrow> number" where
  "js_neg (Num x) = Num (- x)"
| "js_neg Infinity = NegInfinity"
| "js_neg NegInfinity = Infinity"
| "js_neg NaN = NaN"

definition js_sub :: "number \<Rightarrow> number \<Rightarrow> number" where
  "js_sub a b = js_add a (js_neg b)"

fun js_sign :: "number \<Rightarrow> int" where
  "js_sign (Num x) = (if x < 0 then - 1 else 1)"
| "js_sign Infinity = 1"
| "js_sign NegInfinity = - 1"
| "js_sign NaN = 1"

definition signed_infinity :: "int \<Rightarrow> number" where
  "signed_infinity s = (if s < 0 then NegInfinity else Infinity)"

fun js_mul :: "number \<Rightarrow> number \<Rightarrow> number" where
  "js_mul (Num x) (Num y) = fl (x * y)"
| "js_mul NaN b = NaN"
| "js_mul a NaN = NaN"
| "js_mul a b =
     (if a = Num 0 \<or> b = Num 0 then NaN else signed_infinity (js_sign a * js_sign b))"

fun js_div :: "number \<Rightarrow> number \<Rightarrow> number" where
  "js_div (Num x) (Num y) =
     (if y = 0 then (if x = 0 then NaN else signed_infinity (js_sign (Num x)))
      else fl (x / y))"
| "js_div NaN b = NaN"
| "js_div a NaN = NaN"
| "js_div (Num x) b = Num 0"
| "js_div a (Num y) = signed_infinity (js_sign a * js_sign (Num y))"
| "js_div a b = NaN"

text \<open>\<^verbatim>\<open>a || b\<close> on numbers: \<open>b\<close> when \<open>a\<close> is falsy, that is 0 or \<^verbatim>\<open>NaN\<close>.\<close>

definition falsy :: "number \<Rightarrow> bool" where
  "falsy a = (a = Num 0 \<or> a = NaN)"

definition js_or :: "number \<Rightarrow> number \<Rightarrow> number" where
  "js_or a b = (if falsy a then b else a)"

text \<open>
  \<^verbatim>\<open>Math.round\<close> gives the nearest integer, a tie going towards plus infinity; the result
  is exact. \<^verbatim>\<open>Math.pow(10, n)\<close> is the double nearest to the power, which is the power
  itself up to \<open>n = 22\<close>.
\<close>

fun Math_round :: "number \<Rightarrow> number" where
  "Math_round (Num x) = Num (rat_of_int \<lfloor>x + 1 / 2\<rfloor>)"
| "Math_round a = a"

definition Math_pow_10 :: "nat \<Rightarrow> number" where
  "Math_pow_10 n = fl (10 ^ n)"

text \<open>The decimal digits of a natural number.\<close>

function decimal :: "int \<Rightarrow> string" where
  "decimal n =
     (if n < 10 then [''0123456789'' ! nat n]
      else decimal (n div 10) @ [''0123456789'' ! nat (n mod 10)])"
  by pat_completeness auto
termination
  by (relation "measure nat") auto

text \<open>
  \<^verbatim>\<open>String(x)\<close> for an integer double \<open>x\<close> of at least \<open>10 ^ 21\<close>: the shortest digit
  string \<open>s\<close> (of \<open>k\<close> digits) and the exponent \<open>n\<close> with \<open>fl (s * 10 ^ (n - k)) = x\<close>, the
  one nearest to \<open>x\<close> when several exist, printed in exponential notation. Seventeen
  digits always suffice.
\<close>

definition digit_candidates :: "int \<Rightarrow> nat \<Rightarrow> int \<Rightarrow> (int \<times> int) list" where
  "digit_candidates x k n =
     (let unit = 10 ^ nat (n - int k);
          lo = x div unit
      in filter
           (\<lambda>(s, m). 10 ^ (k - 1) \<le> s \<and> s < 10 ^ k \<and>
                    fl (rat_of_int (s * unit)) = Num (rat_of_int x))
           [(lo, n), (lo + 1, n)])"

definition closer :: "int \<Rightarrow> nat \<Rightarrow> (int \<times> int) \<Rightarrow> (int \<times> int) \<Rightarrow> (int \<times> int)" where
  "closer x k a b =
     (let da = \<bar>fst a * 10 ^ nat (snd a - int k) - x\<bar>;
          db = \<bar>fst b * 10 ^ nat (snd b - int k) - x\<bar>
      in if da < db then a else if db < da then b else if even (fst a) then a else b)"

fun shortest_digits :: "nat \<Rightarrow> nat \<Rightarrow> int \<Rightarrow> int \<Rightarrow> int \<times> int" where
  "shortest_digits 0 k x len = (x div 10 ^ nat (len - int k), len)"
| "shortest_digits (Suc fuel) k x len =
     (case digit_candidates x k len @ digit_candidates x k (len + 1) of
        [] \<Rightarrow> shortest_digits fuel (Suc k) x len
      | c # cs \<Rightarrow> foldl (closer x k) c cs)"

definition Number_toString_large :: "int \<Rightarrow> string" where
  "Number_toString_large x =
     (let len = int (length (decimal x));
          (s, n) = shortest_digits 17 1 x len;
          ds = decimal s
      in (if length ds = 1 then ds else [hd ds] @ ''.'' @ tl ds) @ ''e+'' @ decimal (n - 1))"

text \<open>
  \<^verbatim>\<open>x.toFixed(2)\<close>: the name of a special value; otherwise a minus sign for a negative
  number, then \<^verbatim>\<open>String\<close> of the magnitude when it is at least \<open>10 ^ 21\<close>, and else the
  integer \<open>n\<close> nearest to 100 times the exact magnitude (the larger one at a tie) printed
  with a point before its last two digits.
\<close>

fun toFixed2 :: "number \<Rightarrow> string" where
  "toFixed2 (Num x) =
     (let s = (if x < 0 then ''-'' else '''');
          a = \<bar>x\<bar>
      in if 10 ^ 21 \<le> a then s @ Number_toString_large \<lfloor>a\<rfloor>
         else
           let n = \<lfloor>a * 100 + 1 / 2\<rfloor>
           in s @ decimal (n div 100) @ ''.'' @
              [''0123456789'' ! nat (n mod 100 div 10), ''0123456789'' ! nat (n mod 10)])"
| "toFixed2 Infinity = ''Infinity''"
| "toFixed2 NegInfinity = ''-Infinity''"
| "toFixed2 NaN = ''NaN''"

section \<open>Pricing and totals (utils/helpers.ts)\<close>

definition roundToDecimals :: "number \<Rightarrow> nat \<Rightarrow> number" where
  "roundToDecimals v decimals =
     (let multiplier = Math_pow_10 decimals
      in js_div (Math_round (js_mul v multiplier)) multiplier)"

definition formatCurrency :: "number \<Rightarrow> string" where
  "formatCurrency amount = ''$'' @ toFixed2 amount"

text \<open>
  \<^verbatim>\<open>parseFloat(String(amount))\<close> gives a number back as it is, and \<^verbatim>\<open>NaN\<close> for a missing
  amount; \<^verbatim>\<open>validateAmount\<close> replaces \<^verbatim>\<open>NaN\<close> by 0.
\<close>

definition validateAmount :: "number \<Rightarrow> number" where
  "validateAmount amount = (if amount = NaN then Num 0 else amount)"

definition formatPrice :: "number \<Rightarrow> string" where
  "formatPrice amount =
     (let validated = validateAmount amount;
          rounded = roundToDecimals validated 2
      in formatCurrency rounded)"

definition calculateDiscountAmount :: "number \<Rightarrow> number \<Rightarrow> number" where
  "calculateDiscountAmount pr percent = js_div (js_mul pr percent) (Num 100)"

text \<open>\<^verbatim>\<open>!discountPercent\<close> holds for a missing discount and for the number 0.\<close>

definition applyDiscount :: "number \<Rightarrow> rat option \<Rightarrow> number" where
  "applyDiscount pr dp =
     (case dp of
        None \<Rightarrow> pr
      | Some d \<Rightarrow> if d = 0 then pr else js_sub pr (calculateDiscountAmount pr (Num d)))"

text \<open>
  \<^verbatim>\<open>item.price || 0\<close> and \<^verbatim>\<open>item.quantity || 1\<close>: the right operand replaces a
  falsy left operand, and the number 0 is falsy.
\<close>

definition calculateItemTotal :: "OrderItem \<Rightarrow> number" where
  "calculateItemTotal item =
     (let pr = js_or (Num (price item)) (Num 0);
          qty = (if quantity item = 0 then 1 else quantity item);
          discount = applyDiscount pr (discountPercent item)
      in js_mul discount (number_of_int qty))"

definition calculateSubtotal :: "OrderItem list \<Rightarrow> number" where
  "calculateSubtotal items = foldl (\<lambda>sum item. js_add sum (calculateItemTotal item)) (Num 0) items"

definition getTaxRate :: number where
  "getTaxRate = lit (8 / 100)"

definition calculateTax :: "number \<Rightarrow> number" where
  "calculateTax sub = roundToDecimals (js_mul sub getTaxRate) 2"

text \<open>\<^verbatim>\<open>item.weight || 0.5\<close>: 0.5 for a missing weight and for the weight 0.\<close>

definition calculateTotalWeight :: "OrderItem list \<Rightarrow> number" where
  "calculateTotalWeight items =
     foldl (\<lambda>sum item. js_add sum
        (case weight item of
           None \<Rightarrow> lit (1 / 2)
         | Some w \<Rightarrow> js_or (Num w) (lit (1 / 2)))) (Num 0) items"

definition getBaseShippingRate :: number where
  "getBaseShippingRate = lit (599 / 100)"

definition calculateWeightBasedShipping :: "number \<Rightarrow> number \<Rightarrow> number" where
  "calculateWeightBasedShipping w baseRate =
     (let weightSurcharge = js_mul w (lit (1 / 2))
      in roundToDecimals (js_add baseRate weightSurcharge) 2)"

definition calculateShippingCost :: "OrderItem list \<Rightarrow> number" where
  "calculateShippingCost items =
     calculateWeightBasedShipping (calculateTotalWeight items) getBaseShippingRate"

definition computeFinalTotal :: "number \<Rightarrow> number \<Rightarrow> number \<Rightarrow> OrderTotals" where
  "computeFinalTotal sub tx ship =
     (let tot = js_add (js_add sub tx) ship
      in \<lparr>subtotal = formatPrice sub, tax = formatPrice tx, shipping = formatPrice ship,
          total = formatPrice tot, rawTotal = tot\<rparr>)"

definition calculateTotal :: "OrderItem list \<Rightarrow> OrderTotals" where
  "calculateTotal items =
     (let sub = calculateSubtotal items;
          tx = calculateTax sub;
          ship = calculateShippingCost items
      in computeFinalTotal sub tx ship)"

text \<open>
  The totals as the specification words them, each operation being the one of
  JavaScript and a sum running over the items in their order: the per-item total
  multiplies by the quantity as given, and only a missing weight counts as 0.5.
\<close>

definition js_sum :: "number list \<Rightarrow> number" where
  "js_sum ns = foldl js_add (Num 0) ns"

definition round2 :: "number \<Rightarrow> number" where
  "round2 v = js_div (Math_round (js_mul v (Num 100))) (Num 100)"

definition discount_of :: "OrderItem \<Rightarrow> number" where
  "discount_of item = Num (case discountPercent item of None \<Rightarrow> 0 | Some d \<Rightarrow> d)"

definition spec_item_total :: "OrderItem \<Rightarrow> number" where
  "spec_item_total item =
     js_mul
       (js_sub (Num (price item))
          (js_div (js_mul (Num (price item)) (discount_of item)) (Num 100)))
       (number_of_int (quantity item))"

definition spec_subtotal :: "OrderItem list \<Rightarrow> number" where
  "spec_subtotal items = js_sum (map spec_item_total items)"

definition spec_weight :: "OrderItem \<Rightarrow> number" where
  "spec_weight item = (case weight item of None \<Rightarrow> lit (1 / 2) | Some w \<Rightarrow> Num w)"

definition spec_shipping :: "OrderItem list \<Rightarrow> number" where
  "spec_shipping items =
     round2 (js_add (lit (599 / 100)) (js_mul (lit (1 / 2)) (js_sum (map spec_weight items))))"

text \<open>The quantity and the weight that the code charges for.\<close>

definition charged_quantity :: "OrderItem \<Rightarrow> int" where
  "charged_quantity item = (if quantity item = 0 then 1 else quantity item)"

definition charged_item_total :: "OrderItem \<Rightarrow> number" where
  "charged_item_total item =
     js_mul
       (js_sub (Num (price item))
          (js_div (js_mul (Num (price item)) (discount_of item)) (Num 100)))
       (number_of_int (charged_quantity item))"

definition charged_weight :: "OrderItem \<Rightarrow> number" where
  "charged_weight item =
     (case weight item of
        None \<Rightarrow> lit (1 / 2)
      | Some w \<Rightarrow> if w = 0 then lit (1 / 2) else Num w)"

text \<open>A line item whose price, discount and weight are doubles.\<close>

definition js_item :: "OrderItem \<Rightarrow> bool" where
  "js_item item =
     (is_double (price item) \<and>
      (case discountPercent item of None \<Rightarrow> True | Some d \<Rightarrow> is_double d) \<and>
      (case weight item of None \<Rightarrow> True | Some w \<Rightarrow> is_double w))"

text \<open>
  The line item of the specification's example; the same item with quantity 0; and an
  item of weight 0.
\<close>

definition example_item :: OrderItem where
  "example_item = \<lparr>productId = ''P1'', name = None, price = 10, quantity = 2,
     weight = Some 1, discountPercent = None\<rparr>"

definition zero_quantity_item :: OrderItem where
  "zero_quantity_item = \<lparr>productId = ''P1'', name = None, price = 10, quantity = 0,
     weight = Some 1, discountPercent = None\<rparr>"

definition zero_weight_item :: OrderItem where
  "zero_weight_item = \<lparr>productId = ''P1'', name = None, price = 10, quantity = 2,
     weight = Some 0, discountPercent = None\<rparr>"

text \<open>Two pieces at 0.15, the double 5404319552844595 / 2 ^ 55, with a discount of 5 percent.\<close>

definition discounted_item :: OrderItem where
  "discounted_item = \<lparr>productId = ''P1'', name = None,
     price = 5404319552844595 / 36028797018963968, quantity = 2,
     weight = None, discountPercent = Some 5\<rparr>"

section \<open>Record store (utils/database.ts)\<close>

text \<open>
  \<^verbatim>\<open>Array.prototype.findIndex\<close> gives the first position whose element satisfies the
  predicate, and -1 when there is none; the model returns \<open>None\<close> for -1.
\<close>

fun findIndex :: "('a \<Rightarrow> bool) \<Rightarrow> 'a list \<Rightarrow> nat option" where
  "findIndex P [] = None"
| "findIndex P (x # xs) = (if P x then Some 0 else map_option Suc (findIndex P xs))"

text \<open>
  The store's operations take the collection's name and select the list from the global
  \<^verbatim>\<open>database\<close>; here the caller passes the list and the accessor of the \<^verbatim>\<open>id\<close>
  field. \<^verbatim>\<open>updateRecord\<close> merges \<^verbatim>\<open>{...records[index], ...updates, updatedAt}\<close>; the
  merge is the function \<open>merge\<close>, which the caller builds from the update object.
\<close>

definition findRecordById :: "('r \<Rightarrow> string) \<Rightarrow> 'r list \<Rightarrow> string \<Rightarrow> 'r option" where
  "findRecordById rid records i = find (\<lambda>record. rid record = i) records"

definition updateRecord ::
  "('r \<Rightarrow> string) \<Rightarrow> 'r list \<Rightarrow> string \<Rightarrow> ('r \<Rightarrow> 'r) \<Rightarrow> 'r list \<times> 'r option" where
  "updateRecord rid records i merge =
     (case findIndex (\<lambda>record. rid record = i) records of
        None \<Rightarrow> (records, None)
      | Some index \<Rightarrow>
          (records[index := merge (records ! index)], Some (merge (records ! index))))"

text \<open>
  \<^verbatim>\<open>insertRecord\<close> on the orders: \<^verbatim>\<open>id: data.id || generateId()\<close> keeps a non-empty
  id; \<open>gid\<close> is the id that \<^verbatim>\<open>generateId\<close> would return.
\<close>

definition insertRecord_orders :: "Database \<Rightarrow> string \<Rightarrow> time \<Rightarrow> Order \<Rightarrow> Order \<times> Database" where
  "insertRecord_orders db gid now data =
     (let newRecord = data\<lparr>o_id := (if o_id data = [] then gid else o_id data),
                              o_createdAt := Some now\<rparr>
      in (newRecord, db\<lparr>orders := orders db @ [newRecord]\<rparr>))"

section \<open>Validators (utils/validators.ts)\<close>

text \<open>\<^verbatim>\<open>validateRequiredField\<close>: neither undefined nor null nor the empty string.\<close>

definition validateRequiredField :: "string option \<Rightarrow> bool" where
  "validateRequiredField v = (case v of None \<Rightarrow> False | Some s \<Rightarrow> s \<noteq> [])"

definition validateOrderItems :: "OrderItem list option \<Rightarrow> bool" where
  "validateOrderItems its = (case its of None \<Rightarrow> False | Some l \<Rightarrow> length l > 0)"

definition validateShippingAddress :: "Address option \<Rightarrow> bool" where
  "validateShippingAddress address =
     (case address of
        None \<Rightarrow> False
      | Some addr \<Rightarrow>
          validateRequiredField (Some (street addr)) \<and>
          validateRequiredField (Some (city addr)) \<and>
          validateRequiredField (Some (zipCode addr)))"

definition validateOrder :: "OrderPartial \<Rightarrow> (string \<times> string) list" where
  "validateOrder order =
     (if \<not> validateRequiredField (u_userId order)
      then [(''userId'', ''User ID is required'')] else []) @
     (if \<not> validateOrderItems (u_items order)
      then [(''items'', ''Order must have at least one item'')] else []) @
     (if \<not> validateShippingAddress (u_shippingAddress order)
      then [(''shippingAddress'', ''Valid shipping address is required'')] else [])"

section \<open>Order routes (routes/orderRoutes.ts)\<close>

definition getOrderById :: "Database \<Rightarrow> string \<Rightarrow> Order option" where
  "getOrderById db i = findRecordById o_id (orders db) i"

record StockCheck =
  available :: bool
  sc_message :: "string option"

fun validateStockAvailability :: "Product list \<Rightarrow> OrderItem list \<Rightarrow> StockCheck" where
  "validateStockAvailability ps [] = \<lparr>available = True, sc_message = None\<rparr>"
| "validateStockAvailability ps (item # items) =
     (case findRecordById p_id ps (productId item) of
        None \<Rightarrow>
          \<lparr>available = False,
           sc_message = Some (''Product '' @ productId item @ '' not found'')\<rparr>
      | Some product \<Rightarrow>
          if p_stock product < quantity item
          then \<lparr>available = False,
                sc_message = Some (''Insufficient stock for '' @ p_name product)\<rparr>
          else validateStockAvailability ps items)"

definition enrichOrderItems :: "Product list \<Rightarrow> OrderItem list \<Rightarrow> OrderItem list" where
  "enrichOrderItems ps items =
     map (\<lambda>item.
        (case findRecordById p_id ps (productId item) of
           None \<Rightarrow> item\<lparr>name := Some ''Unknown'', price := 0\<rparr>
         | Some product \<Rightarrow> item\<lparr>name := Some (p_name product), price := p_price product\<rparr>))
       items"

text \<open>
  \<open>orderId\<close> is the id that \<^verbatim>\<open>generateId\<close> returns and \<open>now\<close> the time of the
  request. \<^verbatim>\<open>x || d\<close> on a string replaces a missing and an empty \<open>x\<close> by \<open>d\<close>.
\<close>

definition buildOrderObject :: "Product list \<Rightarrow> string \<Rightarrow> time \<Rightarrow> OrderPartial \<Rightarrow> Order" where
  "buildOrderObject ps orderId now data =
     (let items = enrichOrderItems ps (case u_items data of None \<Rightarrow> [] | Some l \<Rightarrow> l);
          totals = calculateTotal items
      in \<lparr>o_id = orderId,
          o_userId = (case u_userId data of None \<Rightarrow> [] | Some u \<Rightarrow> u),
          o_items = items,
          o_shippingAddress =
            (case u_shippingAddress data of
               None \<Rightarrow> \<lparr>street = [], city = [], state = None, zipCode = [], country = None\<rparr>
             | Some a \<Rightarrow> a),
          o_shippingMethod =
            Some (case u_shippingMethod data of
                    None \<Rightarrow> ''standard''
                  | Some m \<Rightarrow> if m = [] then ''standard'' else m),
          o_status = pending,
          o_paymentStatus = None,
          o_shippingStatus = None,
          o_totals = Some totals,
          o_createdAt = Some now,
          o_confirmedAt = None,
          o_processingAt = None,
          o_shippedAt = None,
          o_deliveredAt = None,
          o_cancelledAt = None,
          o_updatedAt = None\<rparr>)"

definition createOrder ::
  "Database \<Rightarrow> string \<Rightarrow> string \<Rightarrow> time \<Rightarrow> OrderPartial \<Rightarrow> Order \<times> Database" where
  "createOrder db orderId gid now orderData =
     (let newOrder = buildOrderObject (products db) orderId now orderData
      in insertRecord_orders db gid now newOrder)"

text \<open>
  The stock decrement of order creation and the restock of cancellation. Each loop
  iteration reads the product from the store as the previous iterations left it.
\<close>

fun updateProductStock :: "time \<Rightarrow> Product list \<Rightarrow> OrderItem list \<Rightarrow> Product list" where
  "updateProductStock now ps [] = ps"
| "updateProductStock now ps (item # items) =
     (case findRecordById p_id ps (productId item) of
        None \<Rightarrow> updateProductStock now ps items
      | Some product \<Rightarrow>
          updateProductStock now
            (fst (updateRecord p_id ps (p_id product)
               (\<lambda>r. r\<lparr>p_stock := p_stock product - quantity item, p_updatedAt := Some now\<rparr>)))
            items)"


definition canModifyOrder :: "Order \<Rightarrow> bool" where
  "canModifyOrder order = (o_status order \<in> set [pending, confirmed])"

text \<open>
  \<^verbatim>\<open>const { id, createdAt, ...safe } = updates\<close>: the rest object has every field of
  the payload but \<^verbatim>\<open>id\<close> and \<^verbatim>\<open>createdAt\<close>.
\<close>

definition filterOrderUpdates :: "OrderPartial \<Rightarrow> OrderPartial" where
  "filterOrderUpdates updates = updates\<lparr>u_id := None, u_createdAt := None\<rparr>"

text \<open>The object spread \<^verbatim>\<open>{...order, ...updates}\<close>: a field present in the payload wins.\<close>

definition override :: "'a \<Rightarrow> 'a option \<Rightarrow> 'a" where
  "override old upd = (case upd of None \<Rightarrow> old | Some v \<Rightarrow> v)"

definition override_opt :: "'a option \<Rightarrow> 'a option \<Rightarrow> 'a option" where
  "override_opt old upd = (case upd of None \<Rightarrow> old | Some v \<Rightarrow> Some v)"

definition spread_order :: "Order \<Rightarrow> OrderPartial \<Rightarrow> Order" where
  "spread_order r u =
     \<lparr>o_id = override (o_id r) (u_id u),
      o_userId = override (o_userId r) (u_userId u),
      o_items = override (o_items r) (u_items u),
      o_shippingAddress = override (o_shippingAddress r) (u_shippingAddress u),
      o_shippingMethod = override_opt (o_shippingMethod r) (u_shippingMethod u),
      o_status = override (o_status r) (u_status u),
      o_paymentStatus = override_opt (o_paymentStatus r) (u_paymentStatus u),
      o_shippingStatus = override_opt (o_shippingStatus r) (u_shippingStatus u),
      o_totals = override_opt (o_totals r) (u_totals u),
      o_createdAt = override_opt (o_createdAt r) (u_createdAt u),
      o_confirmedAt = override_opt (o_confirmedAt r) (u_confirmedAt u),
      o_processingAt = override_opt (o_processingAt r) (u_processingAt u),
      o_shippedAt = override_opt (o_shippedAt r) (u_shippedAt u),
      o_deliveredAt = override_opt (o_deliveredAt r) (u_deliveredAt u),
      o_cancelledAt = override_opt (o_cancelledAt r) (u_cancelledAt u),
      o_updatedAt = override_opt (o_updatedAt r) (u_updatedAt u)\<rparr>"

definition updateOrderData ::
  "Database \<Rightarrow> time \<Rightarrow> string \<Rightarrow> OrderPartial \<Rightarrow> Order option \<times> Database" where
  "updateOrderData db now i updates =
     (let safeUpdates = filterOrderUpdates updates;
          (records, updated) =
             updateRecord o_id (orders db) i
               (\<lambda>r. (spread_order r safeUpdates)\<lparr>o_updatedAt := Some now\<rparr>)
      in (updated, db\<lparr>orders := records\<rparr>))"

fun getValidTransitions :: "OrderStatus \<Rightarrow> OrderStatus list" where
  "getValidTransitions pending = [confirmed, cancelled]"
| "getValidTransitions confirmed = [processing, cancelled]"
| "getValidTransitions processing = [shipped, cancelled]"
| "getValidTransitions shipped = [delivered]"
| "getValidTransitions delivered = []"
| "getValidTransitions cancelled = []"

definition isValidStatusTransition :: "OrderStatus \<Rightarrow> OrderStatus \<Rightarrow> bool" where
  "isValidStatusTransition current newStatus =
     (let transitions = getValidTransitions
      in newStatus \<in> set (transitions current))"

definition updateOrderStatus ::
  "Database \<Rightarrow> time \<Rightarrow> string \<Rightarrow> OrderStatus \<Rightarrow> Order option \<times> Database" where
  "updateOrderStatus db now i status =
     (let (records, updated) =
             updateRecord o_id (orders db) i (\<lambda>r. r\<lparr>o_status := status, o_updatedAt := Some now\<rparr>)
      in (updated, db\<lparr>orders := records\<rparr>))"



text \<open>The handlers. Each returns what it sends and the store it leaves.\<close>

definition post_order ::
  "Database \<Rightarrow> string \<Rightarrow> string \<Rightarrow> time \<Rightarrow> OrderPartial \<Rightarrow> Order response \<times> Database" where
  "post_order db orderId gid now body =
     (let validation = validateOrder body
      in if validation \<noteq> [] then (Failure 400 (ValidationErrors validation), db)
         else
           let stockCheck =
                 validateStockAvailability (products db)
                   (case u_items body of None \<Rightarrow> [] | Some l \<Rightarrow> l)
           in if \<not> available stockCheck
              then (Failure 400 (Text (case sc_message stockCheck of None \<Rightarrow> [] | Some m \<Rightarrow> m)), db)
              else
                let (order, db1) = createOrder db orderId gid now body;
                    db2 = db1\<lparr>products := updateProductStock now (products db1) (o_items order)\<rparr>
                in (Reply 201 ''Order created successfully'' order, db2))"

definition put_order ::
  "Database \<Rightarrow> time \<Rightarrow> string \<Rightarrow> OrderPartial \<Rightarrow> Order option response \<times> Database" where
  "put_order db now i body =
     (case getOrderById db i of
        None \<Rightarrow> (Failure 404 (Text ''Order not found''), db)
      | Some order \<Rightarrow>
          if \<not> canModifyOrder order
          then (Failure 400 (Text ''Order cannot be modified''), db)
          else
            let (updated, db1) = updateOrderData db now i body
            in (Reply 200 ''Order updated'' updated, db1))"

definition patch_order_status ::
  "Database \<Rightarrow> time \<Rightarrow> string \<Rightarrow> OrderStatus \<Rightarrow> Order option response \<times> Database" where
  "patch_order_status db now i status =
     (case getOrderById db i of
        None \<Rightarrow> (Failure 404 (Text ''Order not found''), db)
      | Some order \<Rightarrow>
          if \<not> isValidStatusTransition (o_status order) status
          then (Failure 400 (Text ''Invalid status transition''), db)
          else
            let (updated, db1) = updateOrderStatus db now i status
            in (Reply 200 ''Order status updated'' updated, db1))"


text \<open>The transition table as the specification lists it.\<close>

definition transition_table :: "(OrderStatus \<times> OrderStatus) list" where
  "transition_table =
     [(pending, confirmed), (pending, cancelled),
      (confirmed, processing), (confirmed, cancelled),
      (processing, shipped), (processing, cancelled),
      (shipped, delivered)]"

section \<open>Cart routes (routes/cartRoutes.ts)\<close>

text \<open>
  A cart returned by \<^verbatim>\<open>getCartByUserId\<close> is the object held in \<^verbatim>\<open>database.carts\<close>,
  and the cart functions mutate it in place. The model returns the cart's position in
  the list; a function that mutates the cart returns the new cart, and \<open>store_cart\<close>
  writes it back at that position.
\<close>

definition getCartByUserId :: "Database \<Rightarrow> string \<Rightarrow> nat option" where
  "getCartByUserId db userId = findIndex (\<lambda>cart. c_userId cart = userId) (carts db)"

definition buildEmptyCart :: "string \<Rightarrow> time \<Rightarrow> string \<Rightarrow> Cart" where
  "buildEmptyCart gid now userId =
     \<lparr>c_id = gid, c_userId = userId, c_items = [], c_createdAt = Some now,
      c_updatedAt = Some now\<rparr>"

definition createEmptyCart :: "Database \<Rightarrow> string \<Rightarrow> time \<Rightarrow> string \<Rightarrow> nat \<times> Database" where
  "createEmptyCart db gid now userId =
     (let cart = buildEmptyCart gid now userId
      in (length (carts db), db\<lparr>carts := carts db @ [cart]\<rparr>))"

definition store_cart :: "Database \<Rightarrow> nat \<Rightarrow> exn + Cart \<Rightarrow> (exn + Cart) \<times> Database" where
  "store_cart db idx r =
     (case r of
        Inl e \<Rightarrow> (Inl e, db)
      | Inr cart \<Rightarrow> (Inr cart, db\<lparr>carts := (carts db)[idx := cart]\<rparr>))"

definition checkStockAvailable :: "Product \<Rightarrow> int \<Rightarrow> bool" where
  "checkStockAvailable product qty = (p_stock product \<ge> qty)"

definition findCartItem :: "Cart \<Rightarrow> string \<Rightarrow> CartItem option" where
  "findCartItem cart pid = find (\<lambda>item. ci_productId item = pid) (c_items cart)"

text \<open>
  \<^verbatim>\<open>cart.items[itemIndex].quantity = newQuantity\<close>: when \<^verbatim>\<open>findIndex\<close> gave -1 the
  element is \<^verbatim>\<open>undefined\<close> and the assignment to its property throws a
  \<^verbatim>\<open>TypeError\<close>, before anything is written.
\<close>

definition updateExistingCartItem :: "time \<Rightarrow> Cart \<Rightarrow> string \<Rightarrow> int \<Rightarrow> exn + Cart" where
  "updateExistingCartItem now cart pid newQuantity =
     (case findIndex (\<lambda>item. ci_productId item = pid) (c_items cart) of
        None \<Rightarrow> Inl TypeError
      | Some itemIndex \<Rightarrow>
          Inr (cart\<lparr>c_items :=
                      (c_items cart)[itemIndex := (c_items cart ! itemIndex)\<lparr>ci_quantity := newQuantity\<rparr>],
                    c_updatedAt := Some now\<rparr>))"

definition buildCartItem :: "time \<Rightarrow> Product \<Rightarrow> int \<Rightarrow> CartItem" where
  "buildCartItem now product qty =
     \<lparr>ci_productId = p_id product, ci_name = Some (p_name product), ci_price = p_price product,
      ci_quantity = qty, ci_addedAt = Some now\<rparr>"

definition addNewCartItem :: "time \<Rightarrow> Cart \<Rightarrow> Product \<Rightarrow> int \<Rightarrow> Cart" where
  "addNewCartItem now cart product qty =
     (let newItem = buildCartItem now product qty
      in cart\<lparr>c_items := c_items cart @ [newItem], c_updatedAt := Some now\<rparr>)"

definition addItemToCart ::
  "Database \<Rightarrow> string \<Rightarrow> time \<Rightarrow> string \<Rightarrow> Product \<Rightarrow> int \<Rightarrow> (exn + Cart) \<times> Database" where
  "addItemToCart db gid now userId product qty =
     (let (idx, db1) =
             (case getCartByUserId db userId of
                None \<Rightarrow> createEmptyCart db gid now userId
              | Some i \<Rightarrow> (i, db));
          cart = carts db1 ! idx
      in case findCartItem cart (p_id product) of
           Some existingItem \<Rightarrow>
             store_cart db1 idx
               (updateExistingCartItem now cart (p_id product) (ci_quantity existingItem + qty))
         | None \<Rightarrow> store_cart db1 idx (Inr (addNewCartItem now cart product qty)))"

definition filterOutItem :: "CartItem list \<Rightarrow> string \<Rightarrow> CartItem list" where
  "filterOutItem items pid = filter (\<lambda>item. ci_productId item \<noteq> pid) items"

definition removeCartItem ::
  "Database \<Rightarrow> string \<Rightarrow> time \<Rightarrow> string \<Rightarrow> string \<Rightarrow> Cart \<times> Database" where
  "removeCartItem db gid now userId pid =
     (case getCartByUserId db userId of
        None \<Rightarrow> (let (idx, db1) = createEmptyCart db gid now userId in (carts db1 ! idx, db1))
      | Some idx \<Rightarrow>
          (let cart = (carts db ! idx)\<lparr>c_items := filterOutItem (c_items (carts db ! idx)) pid,
                                        c_updatedAt := Some now\<rparr>
           in (cart, db\<lparr>carts := (carts db)[idx := cart]\<rparr>)))"

definition updateCartItemQuantity ::
  "Database \<Rightarrow> string \<Rightarrow> time \<Rightarrow> string \<Rightarrow> string \<Rightarrow> int \<Rightarrow> (exn + Cart) \<times> Database" where
  "updateCartItemQuantity db gid now userId pid qty =
     (case getCartByUserId db userId of
        None \<Rightarrow> (let (idx, db1) = createEmptyCart db gid now userId in (Inr (carts db1 ! idx), db1))
      | Some idx \<Rightarrow>
          if qty \<le> 0
          then (let (cart, db1) = removeCartItem db gid now userId pid in (Inr cart, db1))
          else store_cart db idx (updateExistingCartItem now (carts db ! idx) pid qty))"

text \<open>
  The handlers: \<open>Inl e\<close> when the exception \<open>e\<close> leaves the handler, \<open>Inr\<close> of what
  it sends otherwise.
\<close>

definition post_cart_item ::
  "Database \<Rightarrow> string \<Rightarrow> time \<Rightarrow> string \<Rightarrow> string \<Rightarrow> int \<Rightarrow> (exn + Cart response) \<times> Database" where
  "post_cart_item db gid now userId pid qty =
     (case findRecordById p_id (products db) pid of
        None \<Rightarrow> (Inr (Failure 404 (Text ''Product not found'')), db)
      | Some product \<Rightarrow>
          if \<not> checkStockAvailable product qty
          then (Inr (Failure 400 (Text ''Insufficient stock'')), db)
          else
            (case addItemToCart db gid now userId product qty of
               (Inl e, db1) \<Rightarrow> (Inl e, db1)
             | (Inr cart, db1) \<Rightarrow> (Inr (Reply 200 ''Item added to cart'' cart), db1)))"

definition put_cart_item ::
  "Database \<Rightarrow> string \<Rightarrow> time \<Rightarrow> string \<Rightarrow> string \<Rightarrow> int \<Rightarrow> (exn + Cart response) \<times> Database" where
  "put_cart_item db gid now userId pid qty =
     (case findRecordById p_id (products db) pid of
        None \<Rightarrow> (Inr (Failure 404 (Text ''Product not found'')), db)
      | Some product \<Rightarrow>
          if \<not> checkStockAvailable product qty
          then (Inr (Failure 400 (Text ''Insufficient stock'')), db)
          else
            (case updateCartItemQuantity db gid now userId pid qty of
               (Inl e, db1) \<Rightarrow> (Inl e, db1)
             | (Inr cart, db1) \<Rightarrow> (Inr (Reply 200 ''Cart item updated'' cart), db1)))"

text \<open>A request to add an item: user, product id, quantity, with the generated id and time.\<close>

record AddItem =
  ai_gid :: string
  ai_now :: time
  ai_userId :: string
  ai_productId :: string
  ai_quantity :: int

fun add_items :: "Database \<Rightarrow> AddItem list \<Rightarrow> Database" where
  "add_items db [] = db"
| "add_items db (r # rs) =
     add_items
       (snd (post_cart_item db (ai_gid r) (ai_now r) (ai_userId r) (ai_productId r) (ai_quantity r)))
       rs"

definition no_duplicate_lines :: "Cart \<Rightarrow> bool" where
  "no_duplicate_lines cart = distinct (map ci_productId (c_items cart))"

section \<open>Payment routes: refund (routes/paymentRoutes.ts)\<close>

record RefundResult =
  rr_success :: bool
  rr_message :: "string option"
  rr_refundId :: "string option"
  rr_amount :: "rat option"

record Refund =
  rf_id :: string
  rf_paymentId :: string
  rf_orderId :: string
  rf_refundId :: "string option"
  rf_amount :: "rat option"
  rf_formattedAmount :: string
  rf_status :: string
  rf_createdAt :: time

definition getPaymentById :: "Database \<Rightarrow> string \<Rightarrow> Payment option" where
  "getPaymentById db i = find (\<lambda>p. pay_id p = i) (payments db)"

text \<open>
  \<^verbatim>\<open>Math.floor(diff / (1000 * 60 * 60 * 24))\<close>; integer division on \<open>int\<close> rounds
  towards minus infinity, as \<^verbatim>\<open>Math.floor\<close> does.
\<close>

definition calculateDaysSince :: "time \<Rightarrow> time \<Rightarrow> int" where
  "calculateDaysSince now date =
     (let diff = now - date
      in diff div (1000 * 60 * 60 * 24))"

text \<open>
  A payment without \<^verbatim>\<open>createdAt\<close> has an age of \<^verbatim>\<open>NaN\<close> days, and
  \<^verbatim>\<open>NaN <= 30\<close> is false.
\<close>

definition canRefundPayment :: "time \<Rightarrow> Payment \<Rightarrow> bool" where
  "canRefundPayment now payment =
     (let refundableStatuses = [completed]
      in pay_status payment \<in> set refundableStatuses \<and>
         (case pay_createdAt payment of
            None \<Rightarrow> False
          | Some date \<Rightarrow> calculateDaysSince now date \<le> 30))"

text \<open>\<^verbatim>\<open>amount || payment.amount\<close>: a missing amount and the amount 0 give the full amount.\<close>

definition processRefund :: "string \<Rightarrow> Payment \<Rightarrow> rat option \<Rightarrow> RefundResult" where
  "processRefund refundId payment amount =
     (let refundAmount =
            (case amount of
               None \<Rightarrow> pay_amount payment
             | Some a \<Rightarrow> if a = 0 then pay_amount payment else a)
      in if refundAmount > pay_amount payment
         then \<lparr>rr_success = False,
               rr_message = Some ''Refund amount exceeds payment amount'',
               rr_refundId = None, rr_amount = None\<rparr>
         else \<lparr>rr_success = True, rr_message = None,
               rr_refundId = Some refundId, rr_amount = Some refundAmount\<rparr>)"

text \<open>
  \<^verbatim>\<open>formatPrice(result.amount)\<close>: a missing amount is \<^verbatim>\<open>undefined\<close>, which
  \<^verbatim>\<open>parseFloat\<close> reads as \<^verbatim>\<open>NaN\<close>.
\<close>

definition createRefundRecord :: "string \<Rightarrow> time \<Rightarrow> Payment \<Rightarrow> RefundResult \<Rightarrow> Refund" where
  "createRefundRecord gid now payment result =
     \<lparr>rf_id = gid, rf_paymentId = pay_id payment, rf_orderId = pay_orderId payment,
      rf_refundId = rr_refundId result, rf_amount = rr_amount result,
      rf_formattedAmount = formatPrice (case rr_amount result of None \<Rightarrow> NaN | Some a \<Rightarrow> Num a),
      rf_status = ''completed'', rf_createdAt = now\<rparr>"

definition updatePaymentStatus :: "Database \<Rightarrow> time \<Rightarrow> string \<Rightarrow> PaymentStatus \<Rightarrow> Database" where
  "updatePaymentStatus db now i status =
     (case findIndex (\<lambda>p. pay_id p = i) (payments db) of
        None \<Rightarrow> db
      | Some index \<Rightarrow>
          db\<lparr>payments :=
               (payments db)[index := (payments db ! index)\<lparr>pay_status := status,
                                                              pay_updatedAt := Some now\<rparr>]\<rparr>)"

text \<open>
  \<open>gid\<close> and \<open>refundId\<close> are the ids that \<^verbatim>\<open>generateId\<close> and \<^verbatim>\<open>generateRefundId\<close>
  return; \<open>amount\<close> is \<^verbatim>\<open>req.body.amount\<close>, which may be missing.
\<close>

definition post_refund ::
  "Database \<Rightarrow> string \<Rightarrow> string \<Rightarrow> time \<Rightarrow> string \<Rightarrow> rat option \<Rightarrow> Refund response \<times> Database" where
  "post_refund db gid refundId now i amount =
     (case getPaymentById db i of
        None \<Rightarrow> (Failure 404 (Text ''Payment not found''), db)
      | Some payment \<Rightarrow>
          if \<not> canRefundPayment now payment
          then (Failure 400 (Text ''Payment cannot be refunded''), db)
          else
            let refundResult = processRefund refundId payment amount
            in if \<not> rr_success refundResult
               then (Failure 400
                       (Text (case rr_message refundResult of None \<Rightarrow> [] | Some m \<Rightarrow> m)), db)
               else
                 let refund = createRefundRecord gid now payment refundResult;
                     db1 = updatePaymentStatus db now i refunded
                 in (Reply 200 ''Refund processed successfully'' refund, db1))"

definition is_failure :: "'a response \<Rightarrow> bool" where
  "is_failure r = (case r of Failure code m \<Rightarrow> True | Reply code m d \<Rightarrow> False)"

section \<open>Product routes: stock update (routes/productRoutes.ts)\<close>

definition getProductById :: "Database \<Rightarrow> string \<Rightarrow> Product option" where
  "getProductById db i = findRecordById p_id (products db) i"

text \<open>
  The \<^verbatim>\<open>updateProductStock\<close> of the product routes, which sets the stock of one product
  to the quantity of the request body.
\<close>

definition updateProductStock_byId ::
  "Database \<Rightarrow> time \<Rightarrow> string \<Rightarrow> int \<Rightarrow> Product option \<times> Database" where
  "updateProductStock_byId db now i qty =
     (let (records, updated) =
             updateRecord p_id (products db) i (\<lambda>r. r\<lparr>p_stock := qty, p_updatedAt := Some now\<rparr>)
      in (updated, db\<lparr>products := records\<rparr>))"

definition patch_product_stock ::
  "Database \<Rightarrow> time \<Rightarrow> string \<Rightarrow> int \<Rightarrow> Product option response \<times> Database" where
  "patch_product_stock db now i qty =
     (case getProductById db i of
        None \<Rightarrow> (Failure 404 (Text ''Product not found''), db)
      | Some product \<Rightarrow>
          let (updated, db1) = updateProductStock_byId db now i qty
          in (Reply 200 ''Stock updated'' updated, db1))"

text \<open>The invariant of the data model: no product has a negative stock.\<close>

definition stock_nonneg :: "Database \<Rightarrow> bool" where
  "stock_nonneg db = list_all (\<lambda>p. 0 \<le> p_stock p) (products db)"

text \<open>The stock of the product that a lookup by id finds.\<close>

definition stock_of :: "Product list \<Rightarrow> string \<Rightarrow> int option" where
  "stock_of ps i = map_option p_stock (findRecordById p_id ps i)"

text \<open>The total quantity that a list of order items requests of one product.\<close>

definition requested :: "OrderItem list \<Rightarrow> string \<Rightarrow> int" where
  "requested items i = sum_list (map quantity (filter (\<lambda>item. productId item = i) items))"

text \<open>Sample data for the concrete evaluations.\<close>

definition laptop :: Product where
  "laptop = \<lparr>p_id = ''P1'', p_name = ''Laptop'', p_price = 99999 / 100, p_categoryId = ''cat-1'',
     p_stock = 10, p_description = None, p_averageRating = None, p_reviewCount = None,
     p_createdAt = None, p_updatedAt = None\<rparr>"

definition sample_address :: Address where
  "sample_address = \<lparr>street = ''1 Main St'', city = ''Springfield'', state = None,
     zipCode = ''12345'', country = None\<rparr>"

definition empty_partial :: OrderPartial where
  "empty_partial = \<lparr>u_id = None, u_userId = None, u_items = None, u_shippingAddress = None,
     u_shippingMethod = None, u_status = None, u_paymentStatus = None, u_shippingStatus = None,
     u_totals = None, u_createdAt = None, u_confirmedAt = None, u_processingAt = None,
     u_shippedAt = None, u_deliveredAt = None, u_cancelledAt = None, u_updatedAt = None\<rparr>"

definition line :: "string \<Rightarrow> int \<Rightarrow> OrderItem" where
  "line pid qty = \<lparr>productId = pid, name = None, price = 1, quantity = qty, weight = None,
     discountPercent = None\<rparr>"

definition order_body :: "OrderItem list \<Rightarrow> OrderPartial" where
  "order_body its = empty_partial\<lparr>u_userId := Some ''U1'', u_items := Some its,
     u_shippingAddress := Some sample_address\<rparr>"

definition shop :: Database where
  "shop = \<lparr>products = [laptop], orders = [], carts = [], payments = []\<rparr>"

definition sample_order :: "OrderStatus \<Rightarrow> Order" where
  "sample_order st = \<lparr>o_id = ''O1'', o_userId = ''U1'', o_items = [line ''P1'' 3],
     o_shippingAddress = sample_address, o_shippingMethod = Some ''standard'', o_status = st,
     o_paymentStatus = None, o_shippingStatus = None, o_totals = None, o_createdAt = Some 0,
     o_confirmedAt = None, o_processingAt = None, o_shippedAt = None, o_deliveredAt = None,
     o_cancelledAt = None, o_updatedAt = None\<rparr>"

definition shop_with_order :: "OrderStatus \<Rightarrow> Database" where
  "shop_with_order st = shop\<lparr>orders := [sample_order st]\<rparr>"

text \<open>The stock check that order creation makes for one item.\<close>

definition item_in_stock :: "Product list \<Rightarrow> OrderItem \<Rightarrow> bool" where
  "item_in_stock ps item =
     (case findRecordById p_id ps (productId item) of
        None \<Rightarrow> False
      | Some product \<Rightarrow> quantity item \<le> p_stock product)"

definition body_items :: "OrderPartial \<Rightarrow> OrderItem list" where
  "body_items body = (case u_items body of None \<Rightarrow> [] | Some l \<Rightarrow> l)"









text \<open>
  How a stored order item relates to the requested one: the product id, quantity, weight
  and discount are the request's; the name and the price are the catalog's, or
  \<^verbatim>\<open>'Unknown'\<close> and 0 when the catalog has no such product.
\<close>

definition snapshot_of :: "Product list \<Rightarrow> OrderItem \<Rightarrow> OrderItem \<Rightarrow> bool" where
  "snapshot_of ps stored req =
     (productId stored = productId req \<and> quantity stored = quantity req \<and>
      weight stored = weight req \<and> discountPercent stored = discountPercent req \<and>
      (case findRecordById p_id ps (productId req) of
         None \<Rightarrow> name stored = Some ''Unknown'' \<and> price stored = 0
       | Some product \<Rightarrow> name stored = Some (p_name product) \<and> price stored = p_price product))"

text \<open>An order for a product that the catalog does not have, at a client-chosen price.\<close>

definition ghost_line :: OrderItem where
  "ghost_line = \<lparr>productId = ''P9'', name = Some ''Bargain'', price = 1 / 100, quantity = 2,
     weight = Some 1, discountPercent = None\<rparr>"

text \<open>
  Merging into a cart as the specification words it: the first line of the product gets
  the requested amount added to its quantity, and no line is appended.
\<close>

fun bump_line :: "string \<Rightarrow> int \<Rightarrow> CartItem list \<Rightarrow> CartItem list" where
  "bump_line pid qty [] = []"
| "bump_line pid qty (x # xs) =
     (if ci_productId x = pid then x\<lparr>ci_quantity := ci_quantity x + qty\<rparr> # xs
      else x # bump_line pid qty xs)"

text \<open>The sample shop with a cart of user U1: holding 2 laptops, and empty.\<close>

definition shop_with_cart :: Database where
  "shop_with_cart =
     shop\<lparr>carts := [\<lparr>c_id = ''C1'', c_userId = ''U1'', c_items = [buildCartItem 0 laptop 2],
                       c_createdAt = Some 0, c_updatedAt = Some 0\<rparr>]\<rparr>"

definition shop_empty_cart :: Database where
  "shop_empty_cart = shop\<lparr>carts := [buildEmptyCart ''C1'' 0 ''U1'']\<rparr>"

text \<open>
  The age limit as the specification words it: at most 30 days, of 86400000 milliseconds
  each, have passed since the payment was created.
\<close>

definition at_most_30_days_old :: "time \<Rightarrow> Payment \<Rightarrow> bool" where
  "at_most_30_days_old now payment =
     (case pay_createdAt payment of
        None \<Rightarrow> False
      | Some date \<Rightarrow> now - date \<le> 30 * 86400000)"

text \<open>A completed payment of 50.00 made at time 0, and a shop that holds it.\<close>

definition sample_payment :: Payment where
  "sample_payment = \<lparr>pay_id = ''PAY1'', pay_orderId = ''O1'', pay_method = paypal,
     pay_amount = 50, pay_formattedAmount = Some ''$50.00'', pay_transactionId = Some ''TXN-1'',
     pay_cardNumber = None, pay_status = completed, pay_createdAt = Some 0,
     pay_updatedAt = None\<rparr>"

definition shop_with_payment :: Database where
  "shop_with_payment = shop\<lparr>payments := [sample_payment]\<rparr>"

section \<open>Properties of the totals\<close>

lemma fl_zero: "fl 0 = Num 0"
  by (simp add: fl_def)

lemma Math_pow_10_2: "Math_pow_10 2 = Num 100"
  by code_simp

lemma roundToDecimals_2: "roundToDecimals v 2 = round2 v"
  by (simp add: roundToDecimals_def round2_def Math_pow_10_2 Let_def)

lemma js_mul_commute: "js_mul a b = js_mul b a"
  by (cases a; cases b) (simp_all add: mult.commute)

lemma no_discount_is_zero_discount:
  assumes "is_double p"
  shows "js_sub (Num p) (js_div (js_mul (Num p) (Num 0)) (Num 100)) = Num p"
proof -
  have "js_div (js_mul (Num p) (Num 0)) (Num 100) = Num 0"
    by (simp add: fl_zero)
  then show ?thesis
    using assms by (simp add: js_sub_def is_double_def)
qed

lemma js_or_price: "js_or (Num p) (Num 0) = Num p"
  by (simp add: js_or_def falsy_def)

lemma calculateItemTotal_charged:
  assumes "is_double (price item)"
  shows "calculateItemTotal item = charged_item_total item"
proof (cases "discountPercent item = None \<or> discountPercent item = Some 0")
  case True
  then have a: "applyDiscount (Num (price item)) (discountPercent item) = Num (price item)"
    by (auto simp add: applyDiscount_def)
  from True have b: "discount_of item = Num 0"
    by (auto simp add: discount_of_def)
  have c: "js_sub (Num (price item))
              (js_div (js_mul (Num (price item)) (discount_of item)) (Num 100)) = Num (price item)"
    unfolding b using assms by (rule no_discount_is_zero_discount)
  show ?thesis
    by (simp add: calculateItemTotal_def charged_item_total_def charged_quantity_def Let_def
        js_or_price a c)
next
  case False
  then obtain d where d: "discountPercent item = Some d" "d \<noteq> 0"
    by (cases "discountPercent item") auto
  then show ?thesis
    by (simp add: calculateItemTotal_def charged_item_total_def charged_quantity_def Let_def
        js_or_price applyDiscount_def calculateDiscountAmount_def discount_of_def)
qed

lemma foldl_js_add_charged:
  "list_all js_item items \<Longrightarrow>
   foldl (\<lambda>sum item. js_add sum (calculateItemTotal item)) a items =
   foldl js_add a (map charged_item_total items)"
  by (induction items arbitrary: a) (simp_all add: calculateItemTotal_charged js_item_def)

lemma calculateSubtotal_charged:
  "list_all js_item items \<Longrightarrow>
   calculateSubtotal items = js_sum (map charged_item_total items)"
  by (simp add: calculateSubtotal_def js_sum_def foldl_js_add_charged)

lemma weight_or_default:
  "(case weight item of None \<Rightarrow> lit (1 / 2) | Some w \<Rightarrow> js_or (Num w) (lit (1 / 2))) =
   charged_weight item"
  by (simp add: charged_weight_def js_or_def falsy_def split: option.split)

lemma calculateTotalWeight_charged:
  "calculateTotalWeight items = js_sum (map charged_weight items)"
  by (simp add: calculateTotalWeight_def js_sum_def weight_or_default foldl_map)

lemma calculateShippingCost_charged:
  "calculateShippingCost items =
     round2 (js_add (lit (599 / 100)) (js_mul (lit (1 / 2)) (js_sum (map charged_weight items))))"
  by (simp add: calculateShippingCost_def calculateWeightBasedShipping_def getBaseShippingRate_def
      roundToDecimals_2 calculateTotalWeight_charged js_mul_commute [of "lit (1 / 2)"])

lemma calculateTax_round2: "calculateTax sub = round2 (js_mul sub (lit (8 / 100)))"
  by (simp add: calculateTax_def getTaxRate_def roundToDecimals_2)

lemma calculateTotal_fields:
  "calculateTotal items =
     \<lparr>subtotal = formatPrice (calculateSubtotal items),
      tax = formatPrice (calculateTax (calculateSubtotal items)),
      shipping = formatPrice (calculateShippingCost items),
      total = formatPrice
        (js_add (js_add (calculateSubtotal items) (calculateTax (calculateSubtotal items)))
           (calculateShippingCost items)),
      rawTotal =
        js_add (js_add (calculateSubtotal items) (calculateTax (calculateSubtotal items)))
          (calculateShippingCost items)\<rparr>"
  by (simp add: calculateTotal_def computeFinalTotal_def Let_def)

lemma calculateTotal_example:
  "calculateTotal [example_item] =
     \<lparr>subtotal = ''$20.00'', tax = ''$1.60'', shipping = ''$6.49'', total = ''$28.09'',
      rawTotal = Num (988329011975291 / 35184372088832)\<rparr>"
  by code_simp

lemma example_is_js_item: "list_all js_item [example_item]"
  by code_simp

text \<open>
  Where no quantity is 0 and no weight is given as 0, the code's subtotal and shipping
  are the ones the specification words.
\<close>

lemma charged_eq_spec:
  assumes "list_all js_item items"
      and "\<forall>item \<in> set items. quantity item \<noteq> 0 \<and> weight item \<noteq> Some 0"
  shows "calculateSubtotal items = spec_subtotal items"
    and "calculateShippingCost items = spec_shipping items"
proof -
  have a: "map charged_item_total items = map spec_item_total items"
    using assms(2) by (simp add: charged_item_total_def spec_item_total_def charged_quantity_def)
  have b: "map charged_weight items = map spec_weight items"
    using assms(2) by (auto simp add: charged_weight_def spec_weight_def split: option.splits)
  show "calculateSubtotal items = spec_subtotal items"
    by (simp add: calculateSubtotal_charged [OF assms(1)] spec_subtotal_def a)
  show "calculateShippingCost items = spec_shipping items"
    by (simp add: calculateShippingCost_charged spec_shipping_def b)
qed

text \<open>
  Claim C1, as the code has it. Every operation is the one of JavaScript's numbers (the
  exact result rounded to the nearest double), and a sum runs over the items in their
  order, starting from 0. For every list of line items whose prices, discounts and
  weights are doubles: the subtotal is the sum over the items of
  \<open>(unitPrice - unitPrice * discountPercent / 100) * q\<close>, where a missing discount is the
  discount 0 and \<open>q\<close> is the item's quantity, but 1 when the quantity is 0; the tax is
  \<open>Math.round(subtotal * 0.08 * 100) / 100\<close>; the shipping is
  \<open>Math.round((5.99 + 0.5 * W) * 100) / 100\<close>, where \<open>W\<close> sums the items' weights, a
  missing weight and a weight of 0 counting 0.5; the raw total is
  \<open>(subtotal + tax) + shipping\<close>, not rounded to cents; the four displayed fields are the
  currency formats of these numbers. The single item with price 10.00, quantity 2 and
  weight 1 gives the subtotal 20, the tax 1.6, the shipping 6.49, displayed as
  \<^verbatim>\<open>$20.00\<close>, \<^verbatim>\<open>$1.60\<close>, \<^verbatim>\<open>$6.49\<close> and \<^verbatim>\<open>$28.09\<close>, and the raw total
  28.090000000000003, which is the double 988329011975291 / 2 ^ 45.
\<close>

theorem C1_calculateTotal_charged:
  assumes "list_all js_item items"
  shows
   "calculateSubtotal items = js_sum (map charged_item_total items) \<and>
    calculateTax (calculateSubtotal items) =
      round2 (js_mul (calculateSubtotal items) (lit (8 / 100))) \<and>
    calculateShippingCost items =
      round2 (js_add (lit (599 / 100)) (js_mul (lit (1 / 2)) (js_sum (map charged_weight items)))) \<and>
    rawTotal (calculateTotal items) =
      js_add (js_add (calculateSubtotal items) (calculateTax (calculateSubtotal items)))
        (calculateShippingCost items) \<and>
    subtotal (calculateTotal items) = formatPrice (calculateSubtotal items) \<and>
    tax (calculateTotal items) = formatPrice (calculateTax (calculateSubtotal items)) \<and>
    shipping (calculateTotal items) = formatPrice (calculateShippingCost items) \<and>
    total (calculateTotal items) = formatPrice (rawTotal (calculateTotal items)) \<and>
    calculateSubtotal [example_item] = Num 20 \<and>
    calculateTax (calculateSubtotal [example_item]) = lit (16 / 10) \<and>
    calculateShippingCost [example_item] = lit (649 / 100) \<and>
    calculateTotal [example_item] =
      \<lparr>subtotal = ''$20.00'', tax = ''$1.60'', shipping = ''$6.49'', total = ''$28.09'',
       rawTotal = Num (988329011975291 / 35184372088832)\<rparr>"
proof -
  have g1: "calculateSubtotal items = js_sum (map charged_item_total items)"
    using assms by (rule calculateSubtotal_charged)
  have g2: "calculateTax (calculateSubtotal items) =
      round2 (js_mul (calculateSubtotal items) (lit (8 / 100)))"
    by (rule calculateTax_round2)
  have g3: "calculateShippingCost items =
      round2 (js_add (lit (599 / 100)) (js_mul (lit (1 / 2)) (js_sum (map charged_weight items))))"
    by (rule calculateShippingCost_charged)
  have g4: "rawTotal (calculateTotal items) =
      js_add (js_add (calculateSubtotal items) (calculateTax (calculateSubtotal items)))
        (calculateShippingCost items)"
    by (simp add: calculateTotal_fields)
  have g5: "subtotal (calculateTotal items) = formatPrice (calculateSubtotal items)"
    by (simp add: calculateTotal_fields)
  have g6: "tax (calculateTotal items) = formatPrice (calculateTax (calculateSubtotal items))"
    by (simp add: calculateTotal_fields)
  have g7: "shipping (calculateTotal items) = formatPrice (calculateShippingCost items)"
    by (simp add: calculateTotal_fields)
  have g8: "total (calculateTotal items) = formatPrice (rawTotal (calculateTotal items))"
    by (simp add: calculateTotal_fields)
  have e1: "calculateSubtotal [example_item] = Num 20"
    by code_simp
  have e2: "calculateTax (calculateSubtotal [example_item]) = lit (16 / 10)"
    by code_simp
  have e3: "calculateShippingCost [example_item] = lit (649 / 100)"
    by code_simp
  show ?thesis
    using g1 g2 g3 g4 g5 g6 g7 g8 e1 e2 e3 calculateTotal_example by blast
qed

theorem C1_calculateTotal_charged_witness:
  "list_all js_item [discounted_item] \<and>
   calculateSubtotal [discounted_item] = js_sum (map charged_item_total [discounted_item]) \<and>
   subtotal (calculateTotal [discounted_item]) = ''$0.28'' \<and>
   rawTotal (calculateTotal [example_item]) = Num (988329011975291 / 35184372088832)"
proof -
  have a: "list_all js_item [discounted_item]"
    by code_simp
  have b: "formatPrice (calculateSubtotal [discounted_item]) = ''$0.28''"
    by code_simp
  show ?thesis
    using C1_calculateTotal_charged [OF a] a b by simp
qed

text \<open>
  Claim C1 as stated multiplies by the quantity as given, counts a weight as given, and
  gives the raw total of its example as 28.09. For one item of price 10 and quantity 0
  the stated subtotal is 0; the code, which replaces the quantity 0 by 1, returns 10. For
  one item of weight 0 the stated shipping is 5.99; the code, which replaces the weight
  0 by 0.5, returns 6.24. For the example the code returns the raw total
  28.090000000000003, which is not the number 28.09.
\<close>

theorem C1_claimed_totals_counterexample:
  "calculateSubtotal [zero_quantity_item] = Num 10 \<and>
   spec_subtotal [zero_quantity_item] = Num 0 \<and>
   calculateSubtotal [zero_quantity_item] \<noteq> spec_subtotal [zero_quantity_item] \<and>
   calculateShippingCost [zero_weight_item] = lit (624 / 100) \<and>
   spec_shipping [zero_weight_item] = lit (599 / 100) \<and>
   calculateShippingCost [zero_weight_item] \<noteq> spec_shipping [zero_weight_item] \<and>
   rawTotal (calculateTotal [example_item]) = Num (988329011975291 / 35184372088832) \<and>
   rawTotal (calculateTotal [example_item]) \<noteq> lit (2809 / 100) \<and>
   rawTotal (calculateTotal [example_item]) \<noteq> Num (2809 / 100)"
proof -
  have a: "calculateSubtotal [zero_quantity_item] = Num 10"
    by code_simp
  have b: "spec_subtotal [zero_quantity_item] = Num 0"
    by code_simp
  have c: "calculateShippingCost [zero_weight_item] = lit (624 / 100)"
    by code_simp
  have d: "spec_shipping [zero_weight_item] = lit (599 / 100)"
    by code_simp
  have e: "lit (624 / 100) \<noteq> lit (599 / 100)"
    by code_simp
  have f: "rawTotal (calculateTotal [example_item]) = Num (988329011975291 / 35184372088832)"
    by (simp add: calculateTotal_example)
  have g: "Num (988329011975291 / 35184372088832) \<noteq> lit (2809 / 100)"
    by code_simp
  have h: "Num (988329011975291 / 35184372088832) \<noteq> Num (2809 / 100)"
    by simp
  show ?thesis
    using a b c d e f g h by simp
qed

section \<open>Properties of the record store\<close>

lemma findIndex_None: "findIndex P xs = None \<longleftrightarrow> find P xs = None"
  by (induction xs) auto

lemma findIndex_Some:
  "findIndex P xs = Some k \<Longrightarrow> k < length xs \<and> find P xs = Some (xs ! k)"
  by (induction xs arbitrary: k) (auto split: if_splits)

lemma find_Some_findIndex:
  "find P xs = Some x \<Longrightarrow> \<exists>k. findIndex P xs = Some k \<and> k < length xs \<and> xs ! k = x"
  by (induction xs) (auto split: if_splits)

lemma updateRecord_Cons:
  "fst (updateRecord rid (x # xs) i m) =
     (if rid x = i then m x # xs else x # fst (updateRecord rid xs i m))"
  by (simp add: updateRecord_def split: option.split)

lemma updateRecord_Nil: "updateRecord rid [] i m = ([], None)"
  by (simp add: updateRecord_def)

lemma updateRecord_snd:
  "snd (updateRecord rid rs i m) = map_option m (findRecordById rid rs i)"
proof (cases "findIndex (\<lambda>r. rid r = i) rs")
  case None
  then have "find (\<lambda>r. rid r = i) rs = None"
    by (simp add: findIndex_None)
  with None show ?thesis
    by (simp add: updateRecord_def findRecordById_def)
next
  case (Some k)
  then show ?thesis
    using findIndex_Some [OF Some] by (simp add: updateRecord_def findRecordById_def)
qed

lemma find_updateRecord:
  assumes "\<And>r. rid (m r) = rid r"
  shows "findRecordById rid (fst (updateRecord rid rs i m)) j =
           (if j = i then map_option m (findRecordById rid rs i) else findRecordById rid rs j)"
proof (induction rs)
  case Nil
  show ?case by (simp add: updateRecord_Nil findRecordById_def)
next
  case (Cons x xs)
  then show ?case
    using assms by (auto simp add: updateRecord_Cons findRecordById_def)
qed

lemma map_rid_updateRecord:
  assumes "\<And>r. rid (m r) = rid r"
  shows "map rid (fst (updateRecord rid rs i m)) = map rid rs"
  by (induction rs) (simp_all add: updateRecord_Nil updateRecord_Cons assms)

lemma length_updateRecord: "length (fst (updateRecord rid rs i m)) = length rs"
  by (induction rs) (simp_all add: updateRecord_Nil updateRecord_Cons)

section \<open>Order status\<close>

lemma isValidStatusTransition_table:
  "isValidStatusTransition c s \<longleftrightarrow> (c, s) \<in> set transition_table"
  by (cases c; cases s) (simp_all add: isValidStatusTransition_def transition_table_def)

lemma updateOrderStatus_find:
  "getOrderById (snd (updateOrderStatus db now i s)) j =
     (if j = i then map_option (\<lambda>r. r\<lparr>o_status := s, o_updatedAt := Some now\<rparr>) (getOrderById db i)
      else getOrderById db j)"
  using find_updateRecord [of o_id "\<lambda>r. r\<lparr>o_status := s, o_updatedAt := Some now\<rparr>" "orders db" i j]
  by (simp add: updateOrderStatus_def getOrderById_def split_def Let_def)

lemma updateOrderStatus_fst:
  "fst (updateOrderStatus db now i s) =
     map_option (\<lambda>r. r\<lparr>o_status := s, o_updatedAt := Some now\<rparr>) (getOrderById db i)"
  using updateRecord_snd [of o_id "orders db" i]
  by (simp add: updateOrderStatus_def getOrderById_def split_def Let_def)


text \<open>
  Claim C2. For an order found in the store, with any current and any requested status:
  the status update is accepted if and only if the pair is in the transition table
  pending to confirmed or cancelled, confirmed to processing or cancelled, processing to
  shipped or cancelled, shipped to delivered, and nothing from delivered or cancelled.
  A pair outside the table gets the error 400 "Invalid status transition" and the store,
  hence the order, is unchanged; a pair in the table stores the order with the new status.
\<close>

theorem C2_status_transition:
  assumes "getOrderById db i = Some order"
  shows "(\<not> is_failure (fst (patch_order_status db now i s))
            \<longleftrightarrow> (o_status order, s) \<in> set transition_table) \<and>
         ((o_status order, s) \<notin> set transition_table \<longrightarrow>
            patch_order_status db now i s = (Failure 400 (Text ''Invalid status transition''), db)) \<and>
         ((o_status order, s) \<in> set transition_table \<longrightarrow>
            fst (patch_order_status db now i s) =
              Reply 200 ''Order status updated'' (Some (order\<lparr>o_status := s, o_updatedAt := Some now\<rparr>)) \<and>
            getOrderById (snd (patch_order_status db now i s)) i =
              Some (order\<lparr>o_status := s, o_updatedAt := Some now\<rparr>))"
  using assms
  by (simp add: patch_order_status_def isValidStatusTransition_table is_failure_def split_def
      updateOrderStatus_find updateOrderStatus_fst)


theorem C2_status_transition_witness:
  "patch_order_status (shop_with_order shipped) 5 ''O1'' cancelled =
     (Failure 400 (Text ''Invalid status transition''), shop_with_order shipped) \<and>
   getOrderById (snd (patch_order_status (shop_with_order pending) 5 ''O1'' confirmed)) ''O1'' =
     Some ((sample_order pending)\<lparr>o_status := confirmed, o_updatedAt := Some 5\<rparr>)"
proof -
  have h: "getOrderById (shop_with_order st) ''O1'' = Some (sample_order st)" for st
    by (simp add: getOrderById_def findRecordById_def shop_with_order_def sample_order_def)
  have out: "(o_status (sample_order shipped), cancelled) \<notin> set transition_table"
    by (simp add: sample_order_def transition_table_def)
  have inn: "(o_status (sample_order pending), confirmed) \<in> set transition_table"
    by (simp add: sample_order_def transition_table_def)
  show ?thesis
    using C2_status_transition [OF h, of shipped 5 cancelled]
      C2_status_transition [OF h, of pending 5 confirmed] out inn
    by blast
qed

section \<open>Stock movements of order creation and cancellation\<close>

lemma findRecordById_id: "findRecordById rid rs i = Some r \<Longrightarrow> rid r = i"
  by (induction rs) (auto simp add: findRecordById_def split: if_splits)

lemma stock_of_update:
  assumes "findRecordById p_id ps i = Some product"
  shows "stock_of (fst (updateRecord p_id ps (p_id product)
            (\<lambda>r. r\<lparr>p_stock := v, p_updatedAt := Some now\<rparr>))) j =
         (if j = i then Some v else stock_of ps j)"
proof -
  have i: "p_id product = i"
    using assms by (rule findRecordById_id)
  show ?thesis
    using assms
      find_updateRecord [of p_id "\<lambda>r. r\<lparr>p_stock := v, p_updatedAt := Some now\<rparr>" ps i j]
    by (simp add: stock_of_def i)
qed

lemma requested_Cons:
  "requested (item # items) j =
     (if productId item = j then quantity item + requested items j else requested items j)"
  by (simp add: requested_def)

lemma stock_of_updateProductStock:
  "stock_of (updateProductStock now ps items) j =
     map_option (\<lambda>s. s - requested items j) (stock_of ps j)"
proof (induction items arbitrary: ps)
  case Nil
  show ?case by (simp add: requested_def option.map_ident)
next
  case (Cons item items)
  show ?case
  proof (cases "findRecordById p_id ps (productId item)")
    case None
    then have "productId item = j \<Longrightarrow> stock_of ps j = None"
      by (auto simp add: stock_of_def)
    with None Cons.IH [of ps] show ?thesis
      by (auto simp add: requested_Cons)
  next
    case (Some product)
    then show ?thesis
      using Cons.IH stock_of_update [OF Some]
      by (auto simp add: requested_Cons stock_of_def)
  qed
qed


lemma requested_enrichOrderItems: "requested (enrichOrderItems ps items) j = requested items j"
proof -
  have "map quantity (filter (\<lambda>item. productId item = j) (enrichOrderItems ps items))
        = map quantity (filter (\<lambda>item. productId item = j) items)"
    by (induction items) (auto simp add: enrichOrderItems_def split: option.splits)
  then show ?thesis by (simp add: requested_def)
qed

lemma available_list_all:
  "available (validateStockAvailability ps items) \<longleftrightarrow> list_all (item_in_stock ps) items"
  by (induction items) (auto simp add: item_in_stock_def split: option.splits)

section \<open>Order creation\<close>

lemma post_order_rejected:
  assumes "\<not> (validateOrder body = [] \<and> list_all (item_in_stock (products db)) (body_items body))"
  shows "is_failure (fst (post_order db oid gid now body)) \<and>
         snd (post_order db oid gid now body) = db"
  using assms
  by (auto simp add: post_order_def Let_def is_failure_def available_list_all body_items_def)

lemma post_order_accepted:
  assumes "validateOrder body = []"
      and "list_all (item_in_stock (products db)) (body_items body)"
  shows "post_order db oid gid now body =
           (Reply 201 ''Order created successfully'' (fst (createOrder db oid gid now body)),
            db\<lparr>orders := orders db @ [fst (createOrder db oid gid now body)],
               products := updateProductStock now (products db)
                             (o_items (fst (createOrder db oid gid now body)))\<rparr>)"
  using assms
  by (simp add: post_order_def Let_def available_list_all body_items_def split_def
      createOrder_def insertRecord_orders_def)

lemma createOrder_items:
  "o_items (fst (createOrder db oid gid now body)) =
     enrichOrderItems (products db) (body_items body)"
  by (simp add: createOrder_def insertRecord_orders_def buildOrderObject_def Let_def body_items_def)


lemma post_order_cases:
  "is_failure (fst (post_order db oid gid now body)) \<longleftrightarrow>
     \<not> (validateOrder body = [] \<and> list_all (item_in_stock (products db)) (body_items body))"
proof (cases "validateOrder body = [] \<and> list_all (item_in_stock (products db)) (body_items body)")
  case True
  then show ?thesis
    using post_order_accepted [of body db oid gid now] by (simp add: is_failure_def)
next
  case False
  then show ?thesis
    using post_order_rejected [of body db oid gid now] by simp
qed

lemma post_order_stock:
  assumes "\<not> is_failure (fst (post_order db oid gid now body))"
  shows "stock_of (products (snd (post_order db oid gid now body))) j =
           map_option (\<lambda>s. s - requested (body_items body) j) (stock_of (products db) j)"
proof -
  have ok: "validateOrder body = []" "list_all (item_in_stock (products db)) (body_items body)"
    using assms by (simp_all add: post_order_cases)
  show ?thesis
    by (simp add: post_order_accepted [OF ok] createOrder_items stock_of_updateProductStock
        requested_enrichOrderItems)
qed

text \<open>
  Claim C4. Order creation validates before it mutates. When some item of the request
  asks for more than the current stock of its product, or names a product that does not
  exist, the request fails and the store is left as it was: no order is inserted and no
  stock is changed. Every failing request leaves the store unchanged. A request that
  succeeds had every item pass the stock check; the order is appended to the orders and
  the stock of each product is decremented by the quantity requested of it.
\<close>

theorem C4_create_validates_before_mutating:
  "(\<not> list_all (item_in_stock (products db)) (body_items body) \<longrightarrow>
      is_failure (fst (post_order db oid gid now body)) \<and>
      snd (post_order db oid gid now body) = db) \<and>
   (is_failure (fst (post_order db oid gid now body)) \<longrightarrow>
      snd (post_order db oid gid now body) = db) \<and>
   (\<not> is_failure (fst (post_order db oid gid now body)) \<longrightarrow>
      list_all (item_in_stock (products db)) (body_items body) \<and>
      fst (post_order db oid gid now body) =
        Reply 201 ''Order created successfully'' (fst (createOrder db oid gid now body)) \<and>
      orders (snd (post_order db oid gid now body)) =
        orders db @ [fst (createOrder db oid gid now body)] \<and>
      (\<forall>j. stock_of (products (snd (post_order db oid gid now body))) j =
             map_option (\<lambda>s. s - requested (body_items body) j) (stock_of (products db) j)))"
proof (cases "validateOrder body = [] \<and> list_all (item_in_stock (products db)) (body_items body)")
  case True
  then have ok: "validateOrder body = []" "list_all (item_in_stock (products db)) (body_items body)"
    by simp_all
  have nf: "\<not> is_failure (fst (post_order db oid gid now body))"
    using True by (simp add: post_order_cases)
  show ?thesis
    using nf ok post_order_stock [OF nf]
    by (simp add: post_order_accepted [OF ok])
next
  case False
  then show ?thesis
    using post_order_rejected [OF False, of oid gid now] by auto
qed

theorem C4_create_validates_before_mutating_witness:
  "is_failure (fst (post_order shop ''O1'' ''G1'' 0 (order_body [line ''P1'' 11]))) \<and>
   snd (post_order shop ''O1'' ''G1'' 0 (order_body [line ''P1'' 11])) = shop \<and>
   stock_of (products (snd (post_order shop ''O1'' ''G1'' 0 (order_body [line ''P1'' 3])))) ''P1''
     = Some 7"
proof -
  have short: "\<not> list_all (item_in_stock (products shop)) (body_items (order_body [line ''P1'' 11]))"
    by (simp add: item_in_stock_def shop_def laptop_def findRecordById_def body_items_def
        order_body_def line_def)
  have enough: "list_all (item_in_stock (products shop)) (body_items (order_body [line ''P1'' 3]))"
    by (simp add: item_in_stock_def shop_def laptop_def findRecordById_def body_items_def
        order_body_def line_def)
  have valid: "validateOrder (order_body [line ''P1'' 3]) = []"
    by (simp add: validateOrder_def order_body_def empty_partial_def validateRequiredField_def
        validateOrderItems_def validateShippingAddress_def sample_address_def)
  have accepted: "\<not> is_failure (fst (post_order shop ''O1'' ''G1'' 0 (order_body [line ''P1'' 3])))"
    using valid enough by (simp add: post_order_cases)
  have before: "stock_of (products shop) ''P1'' = Some 10"
    by (simp add: stock_of_def shop_def laptop_def findRecordById_def)
  have req: "requested (body_items (order_body [line ''P1'' 3])) ''P1'' = 3"
    by (simp add: requested_def body_items_def order_body_def line_def)
  show ?thesis
    using C4_create_validates_before_mutating [of shop "order_body [line ''P1'' 11]" "''O1''" "''G1''" 0]
      C4_create_validates_before_mutating [of shop "order_body [line ''P1'' 3]" "''O1''" "''G1''" 0]
      short accepted before req
    by simp
qed

section \<open>Order cancellation\<close>




















section \<open>Generic order update\<close>


lemma updateOrderData_find:
  "getOrderById (snd (updateOrderData db now i body)) i =
     map_option (\<lambda>r. (spread_order r (filterOrderUpdates body))\<lparr>o_updatedAt := Some now\<rparr>)
       (getOrderById db i)"
proof -
  have "o_id ((spread_order r (filterOrderUpdates body))\<lparr>o_updatedAt := Some now\<rparr>) = o_id r" for r
    by (simp add: spread_order_def filterOrderUpdates_def override_def)
  from find_updateRecord [of o_id _ "orders db" i i, OF this]
  show ?thesis
    by (simp add: updateOrderData_def getOrderById_def split_def Let_def)
qed


lemma put_order_keeps_id_createdAt:
  assumes "getOrderById db i = Some order"
  shows "map_option o_id (getOrderById (snd (put_order db now i body)) i) = Some (o_id order) \<and>
         map_option o_createdAt (getOrderById (snd (put_order db now i body)) i)
           = Some (o_createdAt order)"
  using assms
  by (simp add: put_order_def split_def Let_def updateOrderData_find spread_order_def
      filterOrderUpdates_def override_def override_opt_def)

lemma put_order_status:
  assumes "getOrderById db i = Some order" and "o_status order \<in> {pending, confirmed}"
  shows "map_option o_status (getOrderById (snd (put_order db now i body)) i)
           = Some (case u_status body of None \<Rightarrow> o_status order | Some s \<Rightarrow> s)"
  using assms
  by (auto simp add: put_order_def split_def Let_def updateOrderData_find spread_order_def
      filterOrderUpdates_def override_def canModifyOrder_def)

text \<open>
  Claim C5 says that a generic update leaves the status of the order unchanged. The
  filter removes \<^verbatim>\<open>id\<close> and \<^verbatim>\<open>createdAt\<close> from the payload and keeps \<^verbatim>\<open>status\<close>:
  a generic update of a pending order with the payload \<^verbatim>\<open>{status: 'delivered'}\<close> stores
  the order as delivered, past the transition table.
\<close>

theorem C5_put_overwrites_status:
  "map_option o_status (getOrderById (shop_with_order pending) ''O1'') = Some pending \<and>
   map_option o_status
     (getOrderById
        (snd (put_order (shop_with_order pending) 5 ''O1'' (empty_partial\<lparr>u_status := Some delivered\<rparr>)))
        ''O1'') = Some delivered"
proof -
  have h: "getOrderById (shop_with_order pending) ''O1'' = Some (sample_order pending)"
    by (simp add: getOrderById_def findRecordById_def shop_with_order_def sample_order_def)
  have s: "o_status (sample_order pending) \<in> {pending, confirmed}"
    by (simp add: sample_order_def)
  show ?thesis
    using put_order_status [OF h s, of 5 "empty_partial\<lparr>u_status := Some delivered\<rparr>"]
    by (simp add: h sample_order_def)
qed

section \<open>Replacing the items of an order before it is cancelled\<close>




section \<open>Stock levels\<close>

text \<open>
  Claim C6 says that no public operation makes a stock negative. In the sample shop,
  whose only product has a stock of 10: an order with two lines of 6 for that product
  passes the stock check, which compares each line with the stock on its own, and leaves
  a stock of -2; and the stock update endpoint, which checks nothing, sets the stock to -1.
\<close>

theorem C6_stock_goes_negative:
  "stock_nonneg shop \<and>
   \<not> is_failure (fst (post_order shop ''O1'' ''G1'' 0 (order_body [line ''P1'' 6, line ''P1'' 6]))) \<and>
   stock_of (products (snd (post_order shop ''O1'' ''G1'' 0
      (order_body [line ''P1'' 6, line ''P1'' 6])))) ''P1'' = Some (- 2) \<and>
   \<not> stock_nonneg (snd (post_order shop ''O1'' ''G1'' 0 (order_body [line ''P1'' 6, line ''P1'' 6]))) \<and>
   \<not> is_failure (fst (patch_product_stock shop 0 ''P1'' (- 1))) \<and>
   \<not> stock_nonneg (snd (patch_product_stock shop 0 ''P1'' (- 1)))"
proof -
  let ?body = "order_body [line ''P1'' 6, line ''P1'' 6]"
  have a: "stock_nonneg shop"
    by (simp add: stock_nonneg_def shop_def laptop_def)
  have enough: "list_all (item_in_stock (products shop)) (body_items ?body)"
    by (simp add: item_in_stock_def shop_def laptop_def findRecordById_def body_items_def
        order_body_def line_def)
  have valid: "validateOrder ?body = []"
    by (simp add: validateOrder_def order_body_def empty_partial_def validateRequiredField_def
        validateOrderItems_def validateShippingAddress_def sample_address_def)
  have b: "\<not> is_failure (fst (post_order shop ''O1'' ''G1'' 0 ?body))"
    using valid enough by (simp add: post_order_cases)
  have its: "o_items (fst (createOrder shop ''O1'' ''G1'' 0 ?body)) =
      [(line ''P1'' 6)\<lparr>name := Some ''Laptop'', price := 99999 / 100\<rparr>,
       (line ''P1'' 6)\<lparr>name := Some ''Laptop'', price := 99999 / 100\<rparr>]"
    by (simp add: createOrder_items enrichOrderItems_def body_items_def order_body_def
        findRecordById_def shop_def laptop_def line_def)
  have ps: "products (snd (post_order shop ''O1'' ''G1'' 0 ?body)) =
      [laptop\<lparr>p_stock := - 2, p_updatedAt := Some 0\<rparr>]"
    by (simp add: post_order_accepted [OF valid enough] its)
       (simp add: shop_def laptop_def line_def findRecordById_def updateRecord_def)
  have c: "stock_of (products (snd (post_order shop ''O1'' ''G1'' 0 ?body))) ''P1'' = Some (- 2)"
    by (simp add: ps stock_of_def findRecordById_def laptop_def)
  have d: "\<not> stock_nonneg (snd (post_order shop ''O1'' ''G1'' 0 ?body))"
    by (simp add: ps stock_nonneg_def)
  have pp: "patch_product_stock shop 0 ''P1'' (- 1) =
      (Reply 200 ''Stock updated'' (Some (laptop\<lparr>p_stock := - 1, p_updatedAt := Some 0\<rparr>)),
       shop\<lparr>products := [laptop\<lparr>p_stock := - 1, p_updatedAt := Some 0\<rparr>]\<rparr>)"
    by (simp add: patch_product_stock_def getProductById_def findRecordById_def shop_def
        laptop_def updateProductStock_byId_def updateRecord_def)
  have e: "\<not> is_failure (fst (patch_product_stock shop 0 ''P1'' (- 1)))"
    by (simp add: pp is_failure_def)
  have f: "\<not> stock_nonneg (snd (patch_product_stock shop 0 ''P1'' (- 1)))"
    by (simp add: pp stock_nonneg_def)
  show ?thesis
    using a b c d e f by blast
qed

section \<open>Price and name snapshot\<close>

lemma enrichOrderItems_snapshot:
  "list_all2 (snapshot_of ps) (enrichOrderItems ps items) items"
  by (induction items)
     (auto simp add: enrichOrderItems_def snapshot_of_def split: option.splits)

lemma enrichOrderItems_ignores_price_name:
  "enrichOrderItems ps (map (\<lambda>item. item\<lparr>name := n item, price := p item\<rparr>) items) =
   enrichOrderItems ps items"
  by (induction items) (auto simp add: enrichOrderItems_def split: option.splits)

text \<open>
  Claim C10. The items of a built order are the requested items with name and price
  replaced: by the name and price of the catalog's product, or by \<^verbatim>\<open>'Unknown'\<close> and 0
  when the catalog has no product of that id. The totals of the order are computed from
  these items. Whatever name and price the client sends for an item, the built order is
  the same. The stored order has the items and totals of the built one. An item for an
  unknown product, sent with price 0.01 and quantity 2, is stored with price 0 and gives
  a raw total of 6.49 (the double of that literal), which is tax 0 plus shipping alone.
\<close>

theorem C10_items_snapshot_catalog:
  "list_all2 (snapshot_of ps) (o_items (buildOrderObject ps oid now data)) (body_items data) \<and>
   o_totals (buildOrderObject ps oid now data) =
     Some (calculateTotal (o_items (buildOrderObject ps oid now data))) \<and>
   buildOrderObject ps oid now
       (data\<lparr>u_items := Some (map (\<lambda>item. item\<lparr>name := n item, price := p item\<rparr>) its)\<rparr>) =
     buildOrderObject ps oid now (data\<lparr>u_items := Some its\<rparr>) \<and>
   o_items (fst (createOrder db oid gid now data)) =
     o_items (buildOrderObject (products db) oid now data) \<and>
   o_totals (fst (createOrder db oid gid now data)) =
     o_totals (buildOrderObject (products db) oid now data) \<and>
   o_items (buildOrderObject (products shop) oid now (order_body [ghost_line])) =
     [ghost_line\<lparr>name := Some ''Unknown'', price := 0\<rparr>] \<and>
   map_option rawTotal (o_totals (buildOrderObject (products shop) oid now (order_body [ghost_line])))
     = Some (lit (649 / 100))"
proof -
  have a: "list_all2 (snapshot_of ps) (o_items (buildOrderObject ps oid now data)) (body_items data)"
    by (simp add: buildOrderObject_def Let_def body_items_def [symmetric] enrichOrderItems_snapshot)
  have b: "o_totals (buildOrderObject ps oid now data) =
     Some (calculateTotal (o_items (buildOrderObject ps oid now data)))"
    by (simp add: buildOrderObject_def Let_def)
  have c: "buildOrderObject ps oid now
       (data\<lparr>u_items := Some (map (\<lambda>item. item\<lparr>name := n item, price := p item\<rparr>) its)\<rparr>) =
     buildOrderObject ps oid now (data\<lparr>u_items := Some its\<rparr>)"
    by (simp add: buildOrderObject_def Let_def enrichOrderItems_ignores_price_name)
  have d: "o_items (fst (createOrder db oid gid now data)) =
     o_items (buildOrderObject (products db) oid now data)"
    by (simp add: createOrder_def insertRecord_orders_def Let_def)
  have e: "o_totals (fst (createOrder db oid gid now data)) =
     o_totals (buildOrderObject (products db) oid now data)"
    by (simp add: createOrder_def insertRecord_orders_def Let_def)
  have f: "o_items (buildOrderObject (products shop) oid now (order_body [ghost_line])) =
     [ghost_line\<lparr>name := Some ''Unknown'', price := 0\<rparr>]"
    by (simp add: buildOrderObject_def Let_def order_body_def enrichOrderItems_def
        findRecordById_def shop_def laptop_def ghost_line_def)
  have "rawTotal (calculateTotal [ghost_line\<lparr>name := Some ''Unknown'', price := 0\<rparr>])
          = lit (649 / 100)"
    by code_simp
  moreover have "o_totals (buildOrderObject (products shop) oid now (order_body [ghost_line])) =
     Some (calculateTotal [ghost_line\<lparr>name := Some ''Unknown'', price := 0\<rparr>])"
    using f by (simp add: buildOrderObject_def Let_def)
  ultimately have g: "map_option rawTotal
       (o_totals (buildOrderObject (products shop) oid now (order_body [ghost_line])))
     = Some (lit (649 / 100))"
    by simp
  show ?thesis
    using a b c d e f g by blast
qed

section \<open>Refunds\<close>

lemma getPaymentById_updatePaymentStatus:
  "getPaymentById (updatePaymentStatus db now i s) i =
     map_option (\<lambda>p. p\<lparr>pay_status := s, pay_updatedAt := Some now\<rparr>) (getPaymentById db i)"
proof -
  have "fst (updateRecord pay_id (payments db) i (\<lambda>p. p\<lparr>pay_status := s, pay_updatedAt := Some now\<rparr>))
        = payments (updatePaymentStatus db now i s)"
    by (simp add: updateRecord_def updatePaymentStatus_def split: option.split)
  with find_updateRecord [of pay_id "\<lambda>p. p\<lparr>pay_status := s, pay_updatedAt := Some now\<rparr>"
      "payments db" i i]
  show ?thesis
    by (simp add: getPaymentById_def findRecordById_def)
qed

lemma processRefund_exceeds:
  assumes "a > pay_amount payment" and "a \<noteq> 0 \<or> 0 \<le> pay_amount payment"
  shows "\<not> rr_success (processRefund rid payment (Some a))"
  using assms by (auto simp add: processRefund_def Let_def)

lemma canRefundPayment_iff:
  "canRefundPayment now payment \<longleftrightarrow>
     pay_status payment = completed \<and>
     (\<exists>date. pay_createdAt payment = Some date \<and> (now - date) div 86400000 \<le> 30)"
  by (simp add: canRefundPayment_def calculateDaysSince_def Let_def split: option.split)

lemma int_div_le_iff:
  assumes "(0::int) < n"
  shows "x div n \<le> k \<longleftrightarrow> x < (k + 1) * n"
proof
  have e: "n * (x div n) + x mod n = x"
    by (rule mult_div_mod_eq)
  have d: "(k + 1) * n = n * k + n"
    by (simp add: algebra_simps)
  {
    assume "x div n \<le> k"
    then have a: "n * (x div n) \<le> n * k"
      using assms by (simp add: mult_left_mono)
    have b: "x mod n < n"
      using assms by simp
    show "x < (k + 1) * n"
      unfolding d using a b e by linarith
  }
  {
    assume less: "x < (k + 1) * n"
    show "x div n \<le> k"
    proof (rule ccontr)
      assume "\<not> x div n \<le> k"
      then have "k + 1 \<le> x div n"
        by simp
      then have "n * (k + 1) \<le> n * (x div n)"
        using assms by (simp only: mult_left_mono)
      then have a: "n * k + n \<le> n * (x div n)"
        by (simp add: algebra_simps)
      have b: "0 \<le> x mod n"
        using assms by simp
      show False
        using less a b e unfolding d by linarith
    qed
  }
qed

lemma whole_days_le_30: "(x::int) div 86400000 \<le> 30 \<longleftrightarrow> x < 31 * 86400000"
  using int_div_le_iff [of 86400000 x 30] by simp

text \<open>
  Claim C8, as the code has it. For a payment found in the store: a refund is accepted
  only when the status of the payment is completed and fewer than 31 days have passed
  since its creation, the age being counted in whole days, rounded down, and compared
  with 30; a payment that is 31 days old or older is rejected whatever the amount; the
  refund fails when the requested amount exceeds the amount of the payment (a requested
  amount of 0 counts as no amount given, which matters only for a payment of negative
  amount); on success the stored payment has the status refunded; and on every rejection
  the store, hence the payment record, is unchanged.
\<close>

theorem C8_refund_whole_days:
  assumes "getPaymentById db i = Some payment"
  shows
   "(\<not> is_failure (fst (post_refund db gid rid now i amount)) \<longrightarrow>
       pay_status payment = completed \<and>
       (\<exists>date. pay_createdAt payment = Some date \<and> now - date < 31 * 86400000)) \<and>
    ((\<exists>date. pay_createdAt payment = Some date \<and> 31 * 86400000 \<le> now - date) \<longrightarrow>
       post_refund db gid rid now i amount =
         (Failure 400 (Text ''Payment cannot be refunded''), db)) \<and>
    ((\<exists>a. amount = Some a \<and> pay_amount payment < a \<and> (a \<noteq> 0 \<or> 0 \<le> pay_amount payment)) \<longrightarrow>
       is_failure (fst (post_refund db gid rid now i amount))) \<and>
    (\<not> is_failure (fst (post_refund db gid rid now i amount)) \<longrightarrow>
       getPaymentById (snd (post_refund db gid rid now i amount)) i =
         Some (payment\<lparr>pay_status := refunded, pay_updatedAt := Some now\<rparr>)) \<and>
    (is_failure (fst (post_refund db gid rid now i amount)) \<longrightarrow>
       snd (post_refund db gid rid now i amount) = db)"
proof -
  let ?r = "post_refund db gid rid now i amount"
  have a: "pay_status payment = completed \<and>
       (\<exists>date. pay_createdAt payment = Some date \<and> now - date < 31 * 86400000)"
    if "\<not> is_failure (fst ?r)"
  proof -
    have "canRefundPayment now payment"
      using that assms by (auto simp add: post_refund_def is_failure_def split: if_splits)
    then show ?thesis
      by (simp add: canRefundPayment_iff whole_days_le_30)
  qed
  have b: "?r = (Failure 400 (Text ''Payment cannot be refunded''), db)"
    if "\<exists>date. pay_createdAt payment = Some date \<and> 31 * 86400000 \<le> now - date"
  proof -
    have "\<not> canRefundPayment now payment"
      using that by (auto simp add: canRefundPayment_iff whole_days_le_30)
    then show ?thesis
      using assms by (simp add: post_refund_def)
  qed
  have c: "is_failure (fst ?r)"
    if "\<exists>a. amount = Some a \<and> pay_amount payment < a \<and> (a \<noteq> 0 \<or> 0 \<le> pay_amount payment)"
  proof -
    from that obtain a where am: "amount = Some a" and gt: "pay_amount payment < a"
      and nz: "a \<noteq> 0 \<or> 0 \<le> pay_amount payment" by blast
    have "\<not> rr_success (processRefund rid payment amount)"
      unfolding am using gt nz by (rule processRefund_exceeds)
    then show ?thesis
      using assms by (simp add: post_refund_def is_failure_def Let_def)
  qed
  have d: "getPaymentById (snd ?r) i = Some (payment\<lparr>pay_status := refunded, pay_updatedAt := Some now\<rparr>)"
    if "\<not> is_failure (fst ?r)"
    using that assms
    by (auto simp add: post_refund_def is_failure_def Let_def getPaymentById_updatePaymentStatus
        split: if_splits)
  have e: "snd ?r = db" if "is_failure (fst ?r)"
    using that assms
    by (auto simp add: post_refund_def is_failure_def Let_def split: if_splits)
  show ?thesis
    using a b c d e by blast
qed

lemma sample_payment_found: "getPaymentById shop_with_payment ''PAY1'' = Some sample_payment"
  by (simp add: getPaymentById_def shop_with_payment_def sample_payment_def)

theorem C8_refund_whole_days_witness:
  "post_refund shop_with_payment ''R1'' ''REF-1'' (31 * 86400000) ''PAY1'' (Some 1) =
     (Failure 400 (Text ''Payment cannot be refunded''), shop_with_payment) \<and>
   is_failure (fst (post_refund shop_with_payment ''R1'' ''REF-1'' 86400000 ''PAY1'' (Some 51))) \<and>
   snd (post_refund shop_with_payment ''R1'' ''REF-1'' 86400000 ''PAY1'' (Some 51)) = shop_with_payment \<and>
   \<not> is_failure (fst (post_refund shop_with_payment ''R1'' ''REF-1'' 86400000 ''PAY1'' (Some 20))) \<and>
   map_option pay_status
     (getPaymentById (snd (post_refund shop_with_payment ''R1'' ''REF-1'' 86400000 ''PAY1'' (Some 20)))
        ''PAY1'') = Some refunded"
proof -
  note h = sample_payment_found
  have old: "\<exists>date. pay_createdAt sample_payment = Some date \<and> 31 * 86400000 \<le> 31 * 86400000 - date"
    by (simp add: sample_payment_def)
  have big: "\<exists>a. Some (51::rat) = Some a \<and> pay_amount sample_payment < a \<and>
               (a \<noteq> 0 \<or> 0 \<le> pay_amount sample_payment)"
    by (simp add: sample_payment_def)
  have ok: "\<not> is_failure (fst (post_refund shop_with_payment ''R1'' ''REF-1'' 86400000 ''PAY1'' (Some 20)))"
    by (simp add: post_refund_def h canRefundPayment_def calculateDaysSince_def processRefund_def
        Let_def is_failure_def sample_payment_def)
  from C8_refund_whole_days [OF h, of "''R1''" "''REF-1''" "31 * 86400000" "Some 1"] old
  have w1: "post_refund shop_with_payment ''R1'' ''REF-1'' (31 * 86400000) ''PAY1'' (Some 1) =
     (Failure 400 (Text ''Payment cannot be refunded''), shop_with_payment)"
    by blast
  from C8_refund_whole_days [OF h, of "''R1''" "''REF-1''" 86400000 "Some 51"] big
  have w2: "is_failure (fst (post_refund shop_with_payment ''R1'' ''REF-1'' 86400000 ''PAY1'' (Some 51)))"
    and w3: "snd (post_refund shop_with_payment ''R1'' ''REF-1'' 86400000 ''PAY1'' (Some 51))
              = shop_with_payment"
    by blast+
  from C8_refund_whole_days [OF h, of "''R1''" "''REF-1''" 86400000 "Some 20"] ok
  have "getPaymentById (snd (post_refund shop_with_payment ''R1'' ''REF-1'' 86400000 ''PAY1'' (Some 20)))
        ''PAY1'' = Some (sample_payment\<lparr>pay_status := refunded, pay_updatedAt := Some 86400000\<rparr>)"
    by blast
  then have w4: "map_option pay_status
     (getPaymentById (snd (post_refund shop_with_payment ''R1'' ''REF-1'' 86400000 ''PAY1'' (Some 20)))
        ''PAY1'') = Some refunded"
    by simp
  show ?thesis
    using w1 w2 w3 ok w4 by blast
qed

text \<open>
  Claim C8 as stated accepts a refund only for a payment at most 30 days old. A completed
  payment that is 30 days and 12 hours old (2635200000 milliseconds) is more than 30
  days old, and its refund is accepted: the code rounds the age down to 30 whole days.
\<close>

theorem C8_thirty_and_a_half_days_counterexample:
  "\<not> at_most_30_days_old 2635200000 sample_payment \<and>
   \<not> is_failure (fst (post_refund shop_with_payment ''R1'' ''REF-1'' 2635200000 ''PAY1'' None))"
  by (simp add: at_most_30_days_old_def post_refund_def sample_payment_found canRefundPayment_def
      calculateDaysSince_def processRefund_def Let_def is_failure_def sample_payment_def)

section \<open>Cart lines\<close>

lemma list_all_list_update:
  "list_all P xs \<Longrightarrow> P y \<Longrightarrow> list_all P (xs[i := y])"
  by (induction xs arbitrary: i) (auto split: nat.splits)

lemma list_all_nth: "list_all P xs \<Longrightarrow> i < length xs \<Longrightarrow> P (xs ! i)"
  by (simp add: list_all_length)

lemma update_first_is_bump_line:
  "findIndex (\<lambda>item. ci_productId item = pid) xs = Some k \<Longrightarrow>
     xs[k := (xs ! k)\<lparr>ci_quantity := ci_quantity (xs ! k) + qty\<rparr>] = bump_line pid qty xs"
  by (induction xs arbitrary: k) (auto split: if_splits)

lemma map_productId_bump_line:
  "map ci_productId (bump_line pid qty xs) = map ci_productId xs"
  by (induction xs) auto

lemma find_bump_line:
  "find (\<lambda>item. ci_productId item = pid) xs = Some x \<Longrightarrow>
     find (\<lambda>item. ci_productId item = pid) (bump_line pid qty xs)
       = Some (x\<lparr>ci_quantity := ci_quantity x + qty\<rparr>)"
  by (induction xs) (auto split: if_splits)

lemma getCartByUserId_bound: "getCartByUserId db userId = Some idx \<Longrightarrow> idx < length (carts db)"
  by (simp add: getCartByUserId_def findIndex_Some)

lemma updateExistingCartItem_found:
  assumes "findCartItem cart pid = Some existing"
  shows "updateExistingCartItem now cart pid (ci_quantity existing + qty) =
           Inr (cart\<lparr>c_items := bump_line pid qty (c_items cart), c_updatedAt := Some now\<rparr>)"
proof -
  from assms obtain k where k: "findIndex (\<lambda>item. ci_productId item = pid) (c_items cart) = Some k"
    and x: "c_items cart ! k = existing"
    using find_Some_findIndex [of "\<lambda>item. ci_productId item = pid" "c_items cart" existing]
    by (auto simp add: findCartItem_def)
  show ?thesis
    using update_first_is_bump_line [OF k, of qty]
    by (simp add: updateExistingCartItem_def k x)
qed

lemma addItemToCart_existing:
  assumes "getCartByUserId db userId = Some idx"
      and "findCartItem (carts db ! idx) (p_id product) = Some existing"
  shows "addItemToCart db gid now userId product qty =
           (Inr ((carts db ! idx)\<lparr>c_items := bump_line (p_id product) qty (c_items (carts db ! idx)),
                                   c_updatedAt := Some now\<rparr>),
            db\<lparr>carts := (carts db)[idx :=
                   (carts db ! idx)\<lparr>c_items := bump_line (p_id product) qty (c_items (carts db ! idx)),
                                     c_updatedAt := Some now\<rparr>]\<rparr>)"
  using assms
  by (simp add: addItemToCart_def Let_def updateExistingCartItem_found store_cart_def)

lemma no_duplicate_lines_bump:
  "no_duplicate_lines cart \<Longrightarrow>
   no_duplicate_lines (cart\<lparr>c_items := bump_line pid qty (c_items cart), c_updatedAt := t\<rparr>)"
  by (simp add: no_duplicate_lines_def map_productId_bump_line)

lemma no_duplicate_lines_new:
  assumes "no_duplicate_lines cart" and "findCartItem cart (p_id product) = None"
  shows "no_duplicate_lines (addNewCartItem now cart product qty)"
proof -
  have "p_id product \<notin> set (map ci_productId (c_items cart))"
    using assms(2) by (auto simp add: findCartItem_def find_None_iff)
  then show ?thesis
    using assms(1)
    by (simp add: no_duplicate_lines_def addNewCartItem_def buildCartItem_def Let_def)
qed

lemma addItemToCart_no_duplicates:
  assumes "list_all no_duplicate_lines (carts db)"
  shows "list_all no_duplicate_lines (carts (snd (addItemToCart db gid now userId product qty)))"
proof (cases "getCartByUserId db userId")
  case None
  have e: "findCartItem (buildEmptyCart gid now userId) (p_id product) = None"
    by (simp add: findCartItem_def buildEmptyCart_def)
  have "no_duplicate_lines (buildEmptyCart gid now userId)"
    by (simp add: no_duplicate_lines_def buildEmptyCart_def)
  then have "no_duplicate_lines (addNewCartItem now (buildEmptyCart gid now userId) product qty)"
    using e by (rule no_duplicate_lines_new)
  then show ?thesis
    using None assms e
    by (simp add: addItemToCart_def createEmptyCart_def Let_def store_cart_def)
next
  case (Some idx)
  then have b: "idx < length (carts db)"
    by (rule getCartByUserId_bound)
  with assms have nd: "no_duplicate_lines (carts db ! idx)"
    by (rule list_all_nth)
  show ?thesis
  proof (cases "findCartItem (carts db ! idx) (p_id product)")
    case None
    from nd None have "no_duplicate_lines (addNewCartItem now (carts db ! idx) product qty)"
      by (rule no_duplicate_lines_new)
    then show ?thesis
      using Some None assms
      by (simp add: addItemToCart_def Let_def store_cart_def list_all_list_update)
  next
    case line: (Some existing)
    show ?thesis
      using assms no_duplicate_lines_bump [OF nd]
      by (simp add: addItemToCart_existing [OF Some line] list_all_list_update)
  qed
qed

lemma post_cart_item_no_duplicates:
  assumes "list_all no_duplicate_lines (carts db)"
  shows "list_all no_duplicate_lines (carts (snd (post_cart_item db gid now userId pid qty)))"
proof (cases "findRecordById p_id (products db) pid")
  case None
  then show ?thesis
    using assms by (simp add: post_cart_item_def)
next
  case (Some product)
  show ?thesis
  proof (cases "checkStockAvailable product qty")
    case False
    then show ?thesis
      using assms Some by (simp add: post_cart_item_def)
  next
    case True
    have "snd (post_cart_item db gid now userId pid qty) =
          snd (addItemToCart db gid now userId product qty)"
      using Some True by (simp add: post_cart_item_def split: prod.split sum.split)
    then show ?thesis
      using addItemToCart_no_duplicates [OF assms, of gid now userId product qty] by simp
  qed
qed

lemma add_items_no_duplicates:
  "list_all no_duplicate_lines (carts db) \<Longrightarrow>
   list_all no_duplicate_lines (carts (add_items db reqs))"
  by (induction reqs arbitrary: db) (simp_all add: post_cart_item_no_duplicates)

text \<open>
  Claim C7. When the user's cart already has a line for the product, adding the product
  adds the requested amount to the quantity of that line and appends nothing: the items
  keep their number and their product ids, and the handler replies with that cart
  whenever the product is in the catalog and the requested amount is within its stock.
  Consequently, starting from a store whose carts have no two lines for one product, in
  particular from a store without carts, every sequence of add-item requests leaves
  every cart with at most one line per product.
\<close>

theorem C7_addItem_merges_lines:
  "(getCartByUserId db userId = Some idx \<and>
    findCartItem (carts db ! idx) (p_id product) = Some existing \<longrightarrow>
      addItemToCart db gid now userId product qty =
        (Inr ((carts db ! idx)\<lparr>c_items := bump_line (p_id product) qty (c_items (carts db ! idx)),
                                c_updatedAt := Some now\<rparr>),
         db\<lparr>carts := (carts db)[idx :=
                (carts db ! idx)\<lparr>c_items := bump_line (p_id product) qty (c_items (carts db ! idx)),
                                  c_updatedAt := Some now\<rparr>]\<rparr>) \<and>
      length (bump_line (p_id product) qty (c_items (carts db ! idx))) =
        length (c_items (carts db ! idx)) \<and>
      map ci_productId (bump_line (p_id product) qty (c_items (carts db ! idx))) =
        map ci_productId (c_items (carts db ! idx)) \<and>
      find (\<lambda>item. ci_productId item = p_id product)
          (bump_line (p_id product) qty (c_items (carts db ! idx))) =
        Some (existing\<lparr>ci_quantity := ci_quantity existing + qty\<rparr>) \<and>
      (findRecordById p_id (products db) pid = Some product \<and> qty \<le> p_stock product \<longrightarrow>
         fst (post_cart_item db gid now userId pid qty) =
           Inr (Reply 200 ''Item added to cart''
                 ((carts db ! idx)\<lparr>c_items := bump_line (p_id product) qty (c_items (carts db ! idx)),
                                   c_updatedAt := Some now\<rparr>)) \<and>
         snd (post_cart_item db gid now userId pid qty) =
           snd (addItemToCart db gid now userId product qty))) \<and>
   (list_all no_duplicate_lines (carts db) \<longrightarrow>
      list_all no_duplicate_lines (carts (add_items db reqs))) \<and>
   (carts db = [] \<longrightarrow> list_all no_duplicate_lines (carts (add_items db reqs)))"
proof -
  have merge: "addItemToCart db gid now userId product qty =
        (Inr ((carts db ! idx)\<lparr>c_items := bump_line (p_id product) qty (c_items (carts db ! idx)),
                                c_updatedAt := Some now\<rparr>),
         db\<lparr>carts := (carts db)[idx :=
                (carts db ! idx)\<lparr>c_items := bump_line (p_id product) qty (c_items (carts db ! idx)),
                                  c_updatedAt := Some now\<rparr>]\<rparr>)"
    if "getCartByUserId db userId = Some idx"
      and "findCartItem (carts db ! idx) (p_id product) = Some existing"
    using that by (rule addItemToCart_existing)
  have len: "length (bump_line (p_id product) qty (c_items (carts db ! idx))) =
        length (c_items (carts db ! idx))"
    using map_productId_bump_line [of "p_id product" qty "c_items (carts db ! idx)"]
    by (metis length_map)
  have ids: "map ci_productId (bump_line (p_id product) qty (c_items (carts db ! idx))) =
        map ci_productId (c_items (carts db ! idx))"
    by (rule map_productId_bump_line)
  have line: "find (\<lambda>item. ci_productId item = p_id product)
          (bump_line (p_id product) qty (c_items (carts db ! idx))) =
        Some (existing\<lparr>ci_quantity := ci_quantity existing + qty\<rparr>)"
    if "findCartItem (carts db ! idx) (p_id product) = Some existing"
    using that by (simp add: findCartItem_def find_bump_line)
  have handler: "fst (post_cart_item db gid now userId pid qty) =
           Inr (Reply 200 ''Item added to cart''
                 ((carts db ! idx)\<lparr>c_items := bump_line (p_id product) qty (c_items (carts db ! idx)),
                                   c_updatedAt := Some now\<rparr>)) \<and>
         snd (post_cart_item db gid now userId pid qty) =
           snd (addItemToCart db gid now userId product qty)"
    if "getCartByUserId db userId = Some idx"
      and "findCartItem (carts db ! idx) (p_id product) = Some existing"
      and "findRecordById p_id (products db) pid = Some product" and "qty \<le> p_stock product"
    using that(3,4)
    by (simp add: post_cart_item_def checkStockAvailable_def merge [OF that(1,2)])
  have inv: "list_all no_duplicate_lines (carts (add_items db reqs))"
    if "list_all no_duplicate_lines (carts db)"
    using that by (rule add_items_no_duplicates)
  have inv0: "list_all no_duplicate_lines (carts (add_items db reqs))" if "carts db = []"
    using that by (simp add: add_items_no_duplicates)
  show ?thesis
    using merge len ids line handler inv inv0 by blast
qed

theorem C7_addItem_merges_lines_witness:
  "map ci_quantity (c_items (carts shop_with_cart ! 0)) = [2] \<and>
   map (\<lambda>cart. map ci_quantity (c_items cart))
     (carts (snd (post_cart_item shop_with_cart ''G1'' 7 ''U1'' ''P1'' 3))) = [[5]] \<and>
   list_all no_duplicate_lines
     (carts (add_items shop
        [\<lparr>ai_gid = ''G1'', ai_now = 1, ai_userId = ''U1'', ai_productId = ''P1'', ai_quantity = 2\<rparr>,
         \<lparr>ai_gid = ''G2'', ai_now = 2, ai_userId = ''U1'', ai_productId = ''P1'', ai_quantity = 3\<rparr>]))"
proof -
  have c: "getCartByUserId shop_with_cart ''U1'' = Some 0"
    by (simp add: getCartByUserId_def shop_with_cart_def)
  have l: "findCartItem (carts shop_with_cart ! 0) (p_id laptop) = Some (buildCartItem 0 laptop 2)"
    by (simp add: findCartItem_def shop_with_cart_def buildCartItem_def laptop_def)
  have p: "findRecordById p_id (products shop_with_cart) ''P1'' = Some laptop"
    by (simp add: findRecordById_def shop_with_cart_def shop_def laptop_def)
  have s: "3 \<le> p_stock laptop"
    by (simp add: laptop_def)
  have e: "carts shop = []"
    by (simp add: shop_def)
  note T = C7_addItem_merges_lines [where db = shop_with_cart and userId = "''U1''" and idx = 0
      and product = laptop and existing = "buildCartItem 0 laptop 2" and gid = "''G1''"
      and now = 7 and qty = 3 and pid = "''P1''"]
  from T c l p s have
    "snd (post_cart_item shop_with_cart ''G1'' 7 ''U1'' ''P1'' 3) =
       snd (addItemToCart shop_with_cart ''G1'' 7 ''U1'' laptop 3)" and
    "addItemToCart shop_with_cart ''G1'' 7 ''U1'' laptop 3 =
        (Inr ((carts shop_with_cart ! 0)\<lparr>c_items := bump_line (p_id laptop) 3 (c_items (carts shop_with_cart ! 0)),
                                c_updatedAt := Some 7\<rparr>),
         shop_with_cart\<lparr>carts := (carts shop_with_cart)[0 :=
                (carts shop_with_cart ! 0)\<lparr>c_items := bump_line (p_id laptop) 3 (c_items (carts shop_with_cart ! 0)),
                                  c_updatedAt := Some 7\<rparr>]\<rparr>)"
    by blast+
  then have w2: "map (\<lambda>cart. map ci_quantity (c_items cart))
     (carts (snd (post_cart_item shop_with_cart ''G1'' 7 ''U1'' ''P1'' 3))) = [[5]]"
    by (simp add: shop_with_cart_def buildCartItem_def laptop_def)
  have w1: "map ci_quantity (c_items (carts shop_with_cart ! 0)) = [2]"
    by (simp add: shop_with_cart_def buildCartItem_def)
  from C7_addItem_merges_lines [where db = shop and reqs =
      "[\<lparr>ai_gid = ''G1'', ai_now = 1, ai_userId = ''U1'', ai_productId = ''P1'', ai_quantity = 2\<rparr>,
        \<lparr>ai_gid = ''G2'', ai_now = 2, ai_userId = ''U1'', ai_productId = ''P1'', ai_quantity = 3\<rparr>]"] e
  have w3: "list_all no_duplicate_lines
     (carts (add_items shop
        [\<lparr>ai_gid = ''G1'', ai_now = 1, ai_userId = ''U1'', ai_productId = ''P1'', ai_quantity = 2\<rparr>,
         \<lparr>ai_gid = ''G2'', ai_now = 2, ai_userId = ''U1'', ai_productId = ''P1'', ai_quantity = 3\<rparr>]))"
    by blast
  show ?thesis
    using w1 w2 w3 by blast
qed

section \<open>Cart item update\<close>

text \<open>
  Claim C9. The cart item update is not total: when the product is in the catalog, the
  requested quantity is positive and within the stock, and the user's cart has no line
  for the product, \<^verbatim>\<open>findIndex\<close> finds no position (-1 in the source), the
  assignment to the quantity of the missing element throws a \<^verbatim>\<open>TypeError\<close>, and the
  exception leaves the handler: no response is sent. The store is as it was when the
  exception is thrown.
\<close>

theorem C9_update_missing_line_throws:
  assumes "findRecordById p_id (products db) pid = Some product"
      and "qty \<le> p_stock product"
      and "0 < qty"
      and "getCartByUserId db userId = Some idx"
      and "findCartItem (carts db ! idx) pid = None"
  shows "findIndex (\<lambda>item. ci_productId item = pid) (c_items (carts db ! idx)) = None \<and>
         updateExistingCartItem now (carts db ! idx) pid qty = Inl TypeError \<and>
         updateCartItemQuantity db gid now userId pid qty = (Inl TypeError, db) \<and>
         put_cart_item db gid now userId pid qty = (Inl TypeError, db)"
proof -
  have a: "findIndex (\<lambda>item. ci_productId item = pid) (c_items (carts db ! idx)) = None"
    using assms(5) by (simp add: findCartItem_def findIndex_None)
  then have b: "updateExistingCartItem now (carts db ! idx) pid qty = Inl TypeError"
    by (simp add: updateExistingCartItem_def)
  have c: "updateCartItemQuantity db gid now userId pid qty = (Inl TypeError, db)"
    using assms(3,4) by (simp add: updateCartItemQuantity_def b store_cart_def)
  have d: "put_cart_item db gid now userId pid qty = (Inl TypeError, db)"
    using assms(1,2) by (simp add: put_cart_item_def checkStockAvailable_def c)
  show ?thesis
    using a b c d by blast
qed

theorem C9_update_missing_line_throws_witness:
  "put_cart_item shop_empty_cart ''G1'' 5 ''U1'' ''P1'' 1 = (Inl TypeError, shop_empty_cart)"
proof -
  have p: "findRecordById p_id (products shop_empty_cart) ''P1'' = Some laptop"
    by (simp add: findRecordById_def shop_empty_cart_def shop_def laptop_def)
  have s: "1 \<le> p_stock laptop"
    by (simp add: laptop_def)
  have c: "getCartByUserId shop_empty_cart ''U1'' = Some 0"
    by (simp add: getCartByUserId_def shop_empty_cart_def buildEmptyCart_def)
  have n: "findCartItem (carts shop_empty_cart ! 0) ''P1'' = None"
    by (simp add: findCartItem_def shop_empty_cart_def buildEmptyCart_def)
  show ?thesis
    using C9_update_missing_line_throws [OF p s _ c n, where now = 5 and gid = "''G1''"] by simp
qed

end
